(* ===== verification/AgriPrelude.thy ===== *)
theory AgriPrelude
  imports Complex_Main "HOL-Library.Char_ord" "HOL-Library.List_Lexorder"
begin

text \<open>
  Shared vocabulary of the AgriSense model (\<open>src/AgriSense/app.py\<close>,
  \<open>src/AgriSense/db_setup.py\<close>): the types that name the program's values,
  the Python exceptions that can escape a function of \<open>app.py\<close>, a bind on the
  result type \<open>py_error + 'a\<close> that threads an exception the way Python
  propagates it, and generic list facts the component theories share.
  Python floats and SQL \<open>REAL\<close> columns are modelled as \<open>real\<close> (no rounding
  error); SQL \<open>NULL\<close> is \<open>None\<close> of an option; timestamps are whole seconds of
  the server's local clock.
\<close>

named_theorems model_defs "definitions of the model unfolded by the component proofs"

type_synonym timestamp = int
type_synonym parcel = string

text \<open>
  The exceptions of the program: \<open>pyodbc.Error\<close> raised by \<open>pyodbc.connect\<close>
  (\<open>ConnectionError\<close>) or by \<open>cursor.execute\<close> (\<open>QueryError\<close>), the
  \<open>NameError\<close> of an unbound global, and the \<open>TypeError\<close> of comparing
  \<open>None\<close> with a float.
\<close>

datatype py_error = ConnectionError | QueryError | NameError | TypeError

text \<open>Sequencing of two Python statements, the first of which may raise.\<close>

definition sum_bind :: "'e + 'a \<Rightarrow> ('a \<Rightarrow> 'e + 'b) \<Rightarrow> 'e + 'b" where
  "sum_bind m f = (case m of Inl e \<Rightarrow> Inl e | Inr a \<Rightarrow> f a)"

text \<open>
  The values of the non-\<open>NULL\<close> entries of a column, in order: what SQL's
  aggregate functions see.
\<close>

primrec nonnull :: "'a option list \<Rightarrow> 'a list" where
  "nonnull [] = []"
| "nonnull (x # xs) = (case x of None \<Rightarrow> nonnull xs | Some v \<Rightarrow> v # nonnull xs)"

subsection \<open>Generic facts on results, lists and characters\<close>

lemma sum_bind_Inl [simp]: "sum_bind (Inl e) f = Inl e"
  by (simp add: sum_bind_def)

lemma sum_bind_Inr [simp]: "sum_bind (Inr a) f = f a"
  by (simp add: sum_bind_def)

lemma sum_bind_eq_Inr_iff [simp]:
  "sum_bind m f = Inr b \<longleftrightarrow> (\<exists>a. m = Inr a \<and> f a = Inr b)"
  by (cases m) auto

lemma nonnull_append [simp]: "nonnull (xs @ ys) = nonnull xs @ nonnull ys"
  by (induction xs) (auto split: option.splits)

lemma set_nonnull [simp]: "set (nonnull xs) = {v. Some v \<in> set xs}"
  by (induction xs) (auto split: option.splits)

lemma sort_eq_Nil_iff: "sort xs = [] \<longleftrightarrow> xs = []"
  by (metis length_0_conv length_sort)

text \<open>Evaluation of characters given by their codes, for labels built with \<open>char_of\<close>.\<close>

lemma eq_char_of_iff: "c = char_of n \<longleftrightarrow> take_bit 8 n = of_char c"
  by (metis char_of_eq_iff)

lemmas char_eval = char_of_eq_iff eq_char_of_iff less_char_def

end
