(* ===== verification/Ingestion.thy ===== *)
theory Ingestion
  imports Store
begin

text \<open>
  The ingestion job, \<open>simulate_and_insert_data\<close> (app.py lines 34--56). It opens
  a connection (and returns at once when there is none), draws a moisture and a
  temperature for each parcel of \<open>PARCELS\<close> with
  \<open>round(random.uniform(lo, hi), 2)\<close>, executes one \<open>INSERT\<close> per parcel on the
  same connection, commits, closes, and then prints a line whose f-string calls
  \<open>datetime.now()\<close>; \<open>app.py\<close> never imports \<open>datetime\<close>, so that line raises
  \<open>NameError\<close> after the commit. An \<open>INSERT\<close> that fails raises out of the loop
  before the commit, and the dropped connection rolls the batch back.
  The random generator is the stream \<open>rnd\<close> of the values \<open>random.random()\<close>
  returns, in \<open>[0, 1)\<close>; \<open>random.uniform(a, b)\<close> is \<open>a + (b - a) * random()\<close>.
  Python's \<open>round(x, 2)\<close> rounds half to even; it is modelled on reals.
\<close>

definition py_uniform :: "real \<Rightarrow> real \<Rightarrow> real \<Rightarrow> real" where
  "py_uniform a b r = a + (b - a) * r"

definition round_half_even :: "real \<Rightarrow> int" where
  "round_half_even x =
     (let f = \<lfloor>x\<rfloor>; d = x - of_int f in
      if d < 1 / 2 then f else if 1 / 2 < d then f + 1 else if even f then f else f + 1)"

definition py_round2 :: "real \<Rightarrow> real" where
  "py_round2 x = of_int (round_half_even (x * 100)) / 100"

text \<open>The two draws of the parcel handled at stream position \<open>k\<close> (lines 44--45).\<close>

definition gen_moisture :: "(nat \<Rightarrow> real) \<Rightarrow> nat \<Rightarrow> real" where
  "gen_moisture rnd k = py_round2 (py_uniform 15.0 50.0 (rnd k))"

definition gen_temp :: "(nat \<Rightarrow> real) \<Rightarrow> nat \<Rightarrow> real" where
  "gen_temp rnd k = py_round2 (py_uniform 18.0 35.0 (rnd (k + 1)))"

text \<open>The loop of lines 42--52 on one connection: each parcel uses two draws.\<close>

fun insert_parcels ::
  "(nat \<Rightarrow> real) \<Rightarrow> nat \<Rightarrow> parcel list \<Rightarrow> store \<Rightarrow> conn \<Rightarrow> store \<times> (py_error + conn)" where
  "insert_parcels rnd k [] s c = (s, Inr c)"
| "insert_parcels rnd k (p # ps) s c =
     (case execute_insert s c p (gen_moisture rnd k) (gen_temp rnd k) of
        (s', Inl e) \<Rightarrow> (s', Inl e)
      | (s', Inr c') \<Rightarrow> insert_parcels rnd (k + 2) ps s' c')"

text \<open>
  The whole function: \<open>(s', Inr ())\<close> is a normal return, \<open>(s', Inl e)\<close> an
  exception \<open>e\<close> escaping to the scheduler with the store left as \<open>s'\<close>.
\<close>

definition simulate_and_insert_data :: "(nat \<Rightarrow> real) \<Rightarrow> store \<Rightarrow> store \<times> (py_error + unit)" where
  "simulate_and_insert_data rnd s =
     (case get_db_connection s of
        None \<Rightarrow> (s, Inr ())
      | Some c \<Rightarrow>
          (case insert_parcels rnd 0 PARCELS s c of
             (s', Inl e) \<Rightarrow> (s', Inl e)
           | (s', Inr c') \<Rightarrow> (conn_commit s' c', Inl NameError)))"

subsection \<open>What a batch inserts\<close>

text \<open>The rows a batch appends when every statement succeeds, and the condition for that.\<close>

fun batch_rows :: "(nat \<Rightarrow> real) \<Rightarrow> nat \<Rightarrow> parcel list \<Rightarrow> int \<Rightarrow> timestamp \<Rightarrow> reading list" where
  "batch_rows rnd k [] n t = []"
| "batch_rows rnd k (p # ps) n t =
     \<lparr>row_id = n, parcel_id = p, timestamp = t,
      soil_moisture = Some (gen_moisture rnd k), air_temp = Some (gen_temp rnd k)\<rparr>
     # batch_rows rnd (k + 2) ps (n + 1) t"

fun batch_accepted :: "(nat \<Rightarrow> real) \<Rightarrow> nat \<Rightarrow> parcel list \<Rightarrow> store \<Rightarrow> bool" where
  "batch_accepted rnd k [] s = True"
| "batch_accepted rnd k (p # ps) s =
     (accepts s p (gen_moisture rnd k) (gen_temp rnd k) \<and> batch_accepted rnd (k + 2) ps s)"

subsection \<open>Rounding and the generated values\<close>

lemma round_half_even_of_int [simp]: "round_half_even (of_int n) = n"
  by (simp add: round_half_even_def)

lemma round_half_even_dist: "\<bar>x - of_int (round_half_even x)\<bar> \<le> 1 / 2"
proof -
  have "of_int \<lfloor>x\<rfloor> \<le> x" "x < of_int \<lfloor>x\<rfloor> + 1" by linarith+
  then show ?thesis by (auto simp: round_half_even_def Let_def)
qed

lemma round_half_even_mono:
  assumes "x \<le> y"
  shows "round_half_even x \<le> round_half_even y"
proof (rule ccontr)
  assume "\<not> ?thesis"
  then have lt: "of_int (round_half_even y) + 1 \<le> (of_int (round_half_even x) :: real)"
    by linarith
  have "of_int (round_half_even x) - 1 / 2 \<le> x" "y \<le> of_int (round_half_even y) + 1 / 2"
    using round_half_even_dist [of x] round_half_even_dist [of y] by linarith+
  with lt assms have "x = y" by linarith
  with \<open>\<not> ?thesis\<close> show False by simp
qed

lemma round_half_even_between:
  "of_int a \<le> x \<Longrightarrow> x \<le> of_int b \<Longrightarrow> a \<le> round_half_even x \<and> round_half_even x \<le> b"
  using round_half_even_mono [of "of_int a" x] round_half_even_mono [of x "of_int b"] by simp

lemma py_round2_between:
  assumes "lo \<le> x" "x \<le> hi" "lo * 100 = of_int a" "hi * 100 = of_int b"
  shows "lo \<le> py_round2 x \<and> py_round2 x \<le> hi"
proof -
  have "of_int a \<le> x * 100" "x * 100 \<le> of_int b" using assms by simp_all
  then have "a \<le> round_half_even (x * 100) \<and> round_half_even (x * 100) \<le> b"
    by (rule round_half_even_between)
  then have "of_int a \<le> (of_int (round_half_even (x * 100)) :: real)"
    "(of_int (round_half_even (x * 100)) :: real) \<le> of_int b" by simp_all
  then show ?thesis using assms(3,4) by (simp add: py_round2_def field_simps)
qed

lemma py_uniform_between:
  "a \<le> b \<Longrightarrow> 0 \<le> r \<Longrightarrow> r \<le> 1 \<Longrightarrow> a \<le> py_uniform a b r \<and> py_uniform a b r \<le> b"
proof -
  assume "a \<le> b" "0 \<le> r" "r \<le> 1"
  then have "0 \<le> (b - a) * r" "(b - a) * r \<le> b - a"
    by (simp_all add: mult_left_le)
  then show ?thesis by (simp add: py_uniform_def)
qed

lemma gen_bounds:
  assumes "0 \<le> rnd k" "rnd k \<le> 1" "0 \<le> rnd (k + 1)" "rnd (k + 1) \<le> 1"
  shows "15 \<le> gen_moisture rnd k \<and> gen_moisture rnd k \<le> 50 \<and>
         18 \<le> gen_temp rnd k \<and> gen_temp rnd k \<le> 35"
proof -
  have m: "15 \<le> py_uniform 15.0 50.0 (rnd k) \<and> py_uniform 15.0 50.0 (rnd k) \<le> 50"
    using py_uniform_between [of 15 50 "rnd k"] assms by simp
  have t: "18 \<le> py_uniform 18.0 35.0 (rnd (k + 1)) \<and> py_uniform 18.0 35.0 (rnd (k + 1)) \<le> 35"
    using py_uniform_between [of 18 35 "rnd (k + 1)"] assms by simp
  show ?thesis
    using py_round2_between [of 15 _ 50 1500 5000] py_round2_between [of 18 _ 35 1800 3500] m t
    by (simp add: gen_moisture_def gen_temp_def)
qed

lemma batch_accepted_next_id [simp]:
  "batch_accepted rnd k ps (s\<lparr>next_id := n\<rparr>) = batch_accepted rnd k ps s"
  by (induction ps arbitrary: k) simp_all

lemma insert_parcels_frame:
  "insert_parcels rnd k ps s c = (s', r) \<Longrightarrow>
     s' = s\<lparr>next_id := next_id s'\<rparr> \<and> next_id s \<le> next_id s'"
proof (induction ps arbitrary: k s c)
  case Nil
  then show ?case by simp
next
  case (Cons p ps)
  show ?case
  proof (cases "schema_ok s \<and> accepts s p (gen_moisture rnd k) (gen_temp rnd k)")
    case True
    with Cons.prems have "insert_parcels rnd (k + 2) ps (s\<lparr>next_id := next_id s + 1\<rparr>)
        (c\<lparr>pending := pending c @ [\<lparr>row_id = next_id s, parcel_id = p, timestamp = clock s,
           soil_moisture = Some (gen_moisture rnd k), air_temp = Some (gen_temp rnd k)\<rparr>]\<rparr>) = (s', r)"
      by (simp add: execute_insert_def)
    from Cons.IH [OF this] show ?thesis by auto
  next
    case False
    with Cons.prems show ?thesis by (auto simp: execute_insert_def)
  qed
qed

lemma insert_parcels_ok:
  "schema_ok s \<Longrightarrow> batch_accepted rnd k ps s \<Longrightarrow>
   insert_parcels rnd k ps s c =
     (s\<lparr>next_id := next_id s + int (length ps)\<rparr>,
      Inr (c\<lparr>pending := pending c @ batch_rows rnd k ps (next_id s) (clock s)\<rparr>))"
proof (induction ps arbitrary: k s c)
  case Nil
  then show ?case by simp
next
  case (Cons p ps)
  let ?s1 = "s\<lparr>next_id := next_id s + 1\<rparr>"
  from Cons.prems have "schema_ok ?s1" "batch_accepted rnd (Suc (Suc k)) ps ?s1" by simp_all
  note IH = Cons.IH [OF this]
  from Cons.prems show ?case
    by (simp add: execute_insert_def IH add.assoc)
qed

lemma insert_parcels_rejected:
  "ps \<noteq> [] \<Longrightarrow> \<not> (schema_ok s \<and> batch_accepted rnd k ps s) \<Longrightarrow>
   snd (insert_parcels rnd k ps s c) = Inl QueryError"
proof (induction ps arbitrary: k s c)
  case Nil
  then show ?case by simp
next
  case (Cons p ps)
  let ?s1 = "s\<lparr>next_id := next_id s + 1\<rparr>"
  show ?case
  proof (cases "schema_ok s \<and> accepts s p (gen_moisture rnd k) (gen_temp rnd k)")
    case True
    with Cons.prems have "\<not> (schema_ok ?s1 \<and> batch_accepted rnd (Suc (Suc k)) ps ?s1)" by simp
    moreover from this True have "ps \<noteq> []" by auto
    ultimately have IH: "snd (insert_parcels rnd (Suc (Suc k)) ps ?s1 c') = Inl QueryError" for c'
      using Cons.IH by blast
    with True show ?thesis by (simp add: execute_insert_def)
  next
    case False
    then have "execute_insert s c p (gen_moisture rnd k) (gen_temp rnd k) = (s, Inl QueryError)"
      by (auto simp: execute_insert_def)
    then show ?thesis by simp
  qed
qed

lemma insert_parcels_rows_unchanged:
  "rows (fst (insert_parcels rnd k ps s c)) = rows s"
  using insert_parcels_frame [of rnd k ps s c "fst (insert_parcels rnd k ps s c)"
      "snd (insert_parcels rnd k ps s c)"]
  by (metis prod.collapse store.select_convs(1) store.surjective store.update_convs(2))


lemma batch_rows_values:
  "r \<in> set (batch_rows rnd k ps n t) \<Longrightarrow>
     \<exists>j. soil_moisture r = Some (gen_moisture rnd j) \<and> air_temp r = Some (gen_temp rnd j)"
  by (induction ps arbitrary: k n) auto

text \<open>The function on each of its three paths.\<close>

lemma simulate_cases:
  "simulate_and_insert_data rnd s =
     (if \<not> reachable s then (s, Inr ())
      else if schema_ok s \<and> batch_accepted rnd 0 PARCELS s
      then (s\<lparr>next_id := next_id s + int (length PARCELS),
              rows := rows s @ batch_rows rnd 0 PARCELS (next_id s) (clock s)\<rparr>, Inl NameError)
      else (fst (insert_parcels rnd 0 PARCELS s \<lparr>pending = []\<rparr>), Inl QueryError))"
proof -
  have ne: "PARCELS \<noteq> []" by (simp add: PARCELS_def)
  show ?thesis
  proof (cases "reachable s")
    case False
    then show ?thesis by (simp add: simulate_and_insert_data_def model_defs)
  next
    case True
    show ?thesis
    proof (cases "schema_ok s \<and> batch_accepted rnd 0 PARCELS s")
      case ok: True
      then show ?thesis using True
        by (simp add: simulate_and_insert_data_def model_defs insert_parcels_ok)
    next
      case False
      then have "snd (insert_parcels rnd 0 PARCELS s \<lparr>pending = []\<rparr>) = Inl QueryError"
        using insert_parcels_rejected [OF ne] by blast
      then obtain s' where "insert_parcels rnd 0 PARCELS s \<lparr>pending = []\<rparr> = (s', Inl QueryError)"
        by (metis prod.collapse)
      with True False show ?thesis
        by (simp add: simulate_and_insert_data_def model_defs)
    qed
  qed
qed

lemma simulate_rows:
  "rows (fst (simulate_and_insert_data rnd s)) =
     (if reachable s \<and> schema_ok s \<and> batch_accepted rnd 0 PARCELS s
      then rows s @ batch_rows rnd 0 PARCELS (next_id s) (clock s) else rows s)"
  by (simp add: simulate_cases insert_parcels_rows_unchanged)

subsection \<open>The job keeps the store's invariants\<close>

lemma batch_rows_timestamp: "r \<in> set (batch_rows rnd k ps n t) \<Longrightarrow> timestamp r = t"
  by (induction ps arbitrary: k n) auto

lemma batch_rows_timestamps: "map timestamp (batch_rows rnd k ps n t) = replicate (length ps) t"
  by (induction ps arbitrary: k n) auto

lemma simulate_env:
  "clock (fst (simulate_and_insert_data rnd s)) = clock s \<and>
   reachable (fst (simulate_and_insert_data rnd s)) = reachable s \<and>
   schema_ok (fst (simulate_and_insert_data rnd s)) = schema_ok s \<and>
   accepts (fst (simulate_and_insert_data rnd s)) = accepts s"
proof -
  obtain s' r where ins: "insert_parcels rnd 0 PARCELS s \<lparr>pending = []\<rparr> = (s', r)" by fastforce
  from insert_parcels_frame [OF ins] have eq: "s' = s\<lparr>next_id := next_id s'\<rparr>" by simp
  have "clock s' = clock s" "reachable s' = reachable s" "schema_ok s' = schema_ok s" "accepts s' = accepts s"
    by (subst eq, simp)+
  with ins show ?thesis by (simp add: simulate_cases)
qed

lemma simulate_ts_ok: "ts_ok s \<Longrightarrow> ts_ok (fst (simulate_and_insert_data rnd s))"
  using simulate_env [of rnd s]
  by (auto simp: ts_ok_def simulate_rows sorted_append batch_rows_timestamps dest: batch_rows_timestamp)

subsection \<open>Properties of the job\<close>

text \<open>C6: on a reachable store with the table present and every statement accepted, a tick
  appends exactly one new row per parcel of \<open>PARCELS\<close>, in order, with consecutive ids and
  the server time, commits them, and then raises \<open>NameError\<close> from the log line.\<close>

theorem simulate_commits_batch:
  assumes "reachable s" and "schema_ok s" and "batch_accepted rnd 0 PARCELS s"
  shows "simulate_and_insert_data rnd s =
           (s\<lparr>next_id := next_id s + 2,
              rows := rows s @ batch_rows rnd 0 PARCELS (next_id s) (clock s)\<rparr>, Inl NameError) \<and>
         length (rows (fst (simulate_and_insert_data rnd s))) = length (rows s) + length PARCELS"
proof -
  have "length (batch_rows rnd k ps n t) = length ps" for k ps n t
    by (induction ps arbitrary: k n) simp_all
  then show ?thesis using assms by (simp add: simulate_cases PARCELS_def)
qed

theorem simulate_commits_batch_witness:
  "simulate_and_insert_data (\<lambda>_. 0) sample_store =
     (sample_store\<lparr>next_id := 6,
        rows := sample_rows @ batch_rows (\<lambda>_. 0) 0 PARCELS 4 (11 * 3600)\<rparr>, Inl NameError) \<and>
   length (rows (fst (simulate_and_insert_data (\<lambda>_. 0) sample_store))) = 5"
proof -
  have h: "reachable sample_store" "schema_ok sample_store" "batch_accepted (\<lambda>_. 0) 0 PARCELS sample_store"
    by (simp_all add: sample_store_def PARCELS_def)
  show ?thesis using simulate_commits_batch [OF h]
    by (simp add: sample_store_def sample_rows_def PARCELS_def)
qed

text \<open>C7: when the table is missing or some \<open>INSERT\<close> is rejected, the tick raises
  \<open>QueryError\<close> and no row of the batch is committed.\<close>

theorem simulate_rejected_rolls_back:
  assumes "reachable s" and "\<not> (schema_ok s \<and> batch_accepted rnd 0 PARCELS s)"
  shows "snd (simulate_and_insert_data rnd s) = Inl QueryError \<and>
         rows (fst (simulate_and_insert_data rnd s)) = rows s"
  using assms by (simp add: simulate_cases insert_parcels_rows_unchanged)

theorem simulate_rejected_rolls_back_witness:
  "snd (simulate_and_insert_data (\<lambda>_. 0) (sample_store\<lparr>schema_ok := False\<rparr>)) = Inl QueryError \<and>
   rows (fst (simulate_and_insert_data (\<lambda>_. 0) (sample_store\<lparr>schema_ok := False\<rparr>))) = sample_rows"
  using simulate_rejected_rolls_back [of "sample_store\<lparr>schema_ok := False\<rparr>" "\<lambda>_. 0"]
  by (simp add: sample_store_def)

text \<open>C8: against an unreachable store a tick returns normally and changes nothing.\<close>

theorem simulate_unreachable:
  "\<not> reachable s \<Longrightarrow> simulate_and_insert_data rnd s = (s, Inr ())"
  by (simp add: simulate_cases)

theorem simulate_unreachable_witness:
  "simulate_and_insert_data (\<lambda>_. 0) (sample_store\<lparr>reachable := False\<rparr>) =
     (sample_store\<lparr>reachable := False\<rparr>, Inr ())"
  using simulate_unreachable [of "sample_store\<lparr>reachable := False\<rparr>" "\<lambda>_. 0"]
  by (simp add: sample_store_def)

text \<open>C9: for a generator returning values in \<open>[0, 1)\<close>, every row a tick adds has a
  moisture in \<open>[15, 50]\<close> and a temperature in \<open>[18, 35]\<close>, also after rounding.\<close>

theorem simulate_values_bounds:
  assumes "\<forall>n. 0 \<le> rnd n \<and> rnd n < 1"
    and "r \<in> set (rows (fst (simulate_and_insert_data rnd s)))" and "r \<notin> set (rows s)"
  shows "\<exists>m t. soil_moisture r = Some m \<and> air_temp r = Some t \<and>
               15 \<le> m \<and> m \<le> 50 \<and> 18 \<le> t \<and> t \<le> 35"
proof -
  from assms(2,3) have "r \<in> set (batch_rows rnd 0 PARCELS (next_id s) (clock s))"
    by (simp add: simulate_rows split: if_splits)
  then obtain j where "soil_moisture r = Some (gen_moisture rnd j)" "air_temp r = Some (gen_temp rnd j)"
    using batch_rows_values by blast
  moreover have "15 \<le> gen_moisture rnd j \<and> gen_moisture rnd j \<le> 50 \<and>
                 18 \<le> gen_temp rnd j \<and> gen_temp rnd j \<le> 35"
    using assms(1) by (intro gen_bounds) (auto simp: less_imp_le)
  ultimately show ?thesis by blast
qed

theorem simulate_values_bounds_witness:
  "\<lparr>row_id = 4, parcel_id = PARCELS ! 0, timestamp = 11 * 3600,
    soil_moisture = Some (gen_moisture (\<lambda>_. 0) 0), air_temp = Some (gen_temp (\<lambda>_. 0) 0)\<rparr>
     \<in> set (rows (fst (simulate_and_insert_data (\<lambda>_. 0) sample_store))) \<and>
   (\<exists>m t. gen_moisture (\<lambda>_. 0) 0 = m \<and> gen_temp (\<lambda>_. 0) 0 = t \<and>
          15 \<le> m \<and> m \<le> 50 \<and> 18 \<le> t \<and> t \<le> 35)"
proof -
  let ?r = "\<lparr>row_id = 4, parcel_id = PARCELS ! 0, timestamp = 11 * 3600,
    soil_moisture = Some (gen_moisture (\<lambda>_. 0) 0), air_temp = Some (gen_temp (\<lambda>_. 0) 0)\<rparr>"
  have h1: "\<forall>n. 0 \<le> (\<lambda>_. 0::real) n \<and> (\<lambda>_. 0::real) n < 1" by simp
  have h2: "?r \<in> set (rows (fst (simulate_and_insert_data (\<lambda>_. 0) sample_store)))"
    by (simp add: simulate_cases sample_store_def PARCELS_def)
  have h3: "?r \<notin> set (rows sample_store)"
    by (simp add: sample_store_def sample_rows_def)
  from simulate_values_bounds [OF h1 h2 h3] h2 show ?thesis by simp
qed

text \<open>C10: a tick commits all of its batch or none of it: the committed rows after the tick
  are the rows before it, or those followed by the whole batch. Since the pending inserts
  never reach the committed rows before the commit, a reader never sees a partial batch.\<close>

theorem simulate_all_or_nothing:
  "rows (fst (simulate_and_insert_data rnd s)) = rows s \<or>
   rows (fst (simulate_and_insert_data rnd s)) = rows s @ batch_rows rnd 0 PARCELS (next_id s) (clock s)"
  by (simp add: simulate_rows)

end
