(* ===== verification/Query.thy ===== *)
theory Query
  imports Store
begin

text \<open>
  The query layer of \<open>app.py\<close>: \<open>get_latest_data\<close> (lines 59--79,
  \<open>SELECT TOP 1 * ... WHERE parcel_id = ? ORDER BY [timestamp] DESC\<close>) and
  \<open>get_time_series_data\<close> (lines 82--109, the hourly averages of the last
  \<open>hours\<close> hours grouped by \<open>FORMAT([timestamp], 'HH:00')\<close> and ordered by
  that label). Both return an empty result when \<open>get_db_connection\<close> gives
  \<open>None\<close>; a failing \<open>cursor.execute\<close> is not caught and raises. SQL leaves the
  row \<open>TOP 1\<close> picks among equal timestamps open; the model takes the one
  inserted last (\<open>latest_of\<close>), and \<open>is_top1_desc\<close> states the contract that
  any choice satisfies. The label of an hour is two zero-padded digits and
  \<open>:00\<close>; the lemmas show that comparing labels as strings compares the hours
  of the day, that labels forget the date, and that averages stay within the
  range of the averaged values.
\<close>

subsection \<open>Latest reading\<close>

fun latest_of :: "reading list \<Rightarrow> reading option" where
  "latest_of [] = None"
| "latest_of (r # rs) =
     (case latest_of rs of
        None \<Rightarrow> Some r
      | Some r' \<Rightarrow> if timestamp r \<le> timestamp r' then Some r' else Some r)"

definition is_top1_desc :: "reading list \<Rightarrow> reading \<Rightarrow> bool" where
  "is_top1_desc rs r \<longleftrightarrow> r \<in> set rs \<and> (\<forall>x\<in>set rs. timestamp x \<le> timestamp r)"

definition get_latest_data :: "store \<Rightarrow> parcel \<Rightarrow> py_error + reading option" where
  "get_latest_data s p =
     (case get_db_connection s of
        None \<Rightarrow> Inr None
      | Some c \<Rightarrow> sum_bind (execute_select s)
                    (\<lambda>rs. Inr (latest_of (filter (\<lambda>r. parcel_id r = p) rs))))"

subsection \<open>Hour labels\<close>

text \<open>The hour of the day of a timestamp, and \<open>FORMAT(ts, 'HH:00')\<close>.\<close>

definition hour_of :: "timestamp \<Rightarrow> nat" where
  "hour_of t = nat ((t div 3600) mod 24)"

definition two_digits :: "nat \<Rightarrow> string" where
  "two_digits n = [char_of (48 + n div 10), char_of (48 + n mod 10)]"

definition format_hour :: "timestamp \<Rightarrow> string" where
  "format_hour t = two_digits (hour_of t) @ '':00''"

subsection \<open>Hourly series\<close>

text \<open>\<open>AVG\<close> over a column: the mean of its non-\<open>NULL\<close> values, \<open>NULL\<close> if none.\<close>

definition sql_avg :: "real option list \<Rightarrow> real option" where
  "sql_avg xs = (let vs = nonnull xs in
                   if vs = [] then None else Some (sum_list vs / real (length vs)))"

record hour_avg =
  hour :: string
  avg_moisture :: "real option"

text \<open>
  The result of the statement of lines 90--99 on the committed rows \<open>rs\<close> at
  server time \<open>now\<close>: rows of the parcel with
  \<open>[timestamp] >= DATEADD(hour, -hours, GETDATE())\<close>, grouped by label, one
  row per label in ascending label order.
\<close>

definition in_window :: "timestamp \<Rightarrow> parcel \<Rightarrow> int \<Rightarrow> reading \<Rightarrow> bool" where
  "in_window now p hours r \<longleftrightarrow> parcel_id r = p \<and> now + (- hours) * 3600 \<le> timestamp r"

definition hourly_rows :: "timestamp \<Rightarrow> parcel \<Rightarrow> int \<Rightarrow> reading list \<Rightarrow> hour_avg list" where
  "hourly_rows now p hours rs =
     (let sel = filter (in_window now p hours) rs
      in map (\<lambda>l. \<lparr>hour = l,
                    avg_moisture = sql_avg (map soil_moisture
                                     (filter (\<lambda>r. format_hour (timestamp r) = l) sel))\<rparr>)
             (sort (remdups (map (\<lambda>r. format_hour (timestamp r)) sel))))"

definition get_time_series_data :: "store \<Rightarrow> parcel \<Rightarrow> int \<Rightarrow> py_error + hour_avg list" where
  "get_time_series_data s p hours =
     (case get_db_connection s of
        None \<Rightarrow> Inr []
      | Some c \<Rightarrow> sum_bind (execute_select s) (\<lambda>rs. Inr (hourly_rows (clock s) p hours rs)))"

declare get_latest_data_def [model_defs] get_time_series_data_def [model_defs]

subsection \<open>The latest row: refinement of the \<open>TOP 1\<close> contract\<close>

lemma latest_of_None_iff [simp]: "latest_of rs = None \<longleftrightarrow> rs = []"
  by (induction rs) (auto split: option.splits)

lemma latest_of_top1: "latest_of rs = Some r \<Longrightarrow> is_top1_desc rs r"
proof (induction rs arbitrary: r)
  case Nil
  then show ?case by simp
next
  case (Cons x rs)
  show ?case
  proof (cases "latest_of rs")
    case None
    with Cons.prems show ?thesis by (simp add: is_top1_desc_def)
  next
    case (Some r')
    with Cons.IH have "is_top1_desc rs r'" by simp
    with Cons.prems Some show ?thesis
      by (auto simp: is_top1_desc_def split: if_splits)
  qed
qed

lemma latest_of_sorted:
  "sorted (map timestamp rs) \<Longrightarrow> rs \<noteq> [] \<Longrightarrow> latest_of rs = Some (last rs)"
proof (induction rs)
  case Nil
  then show ?case by simp
next
  case (Cons x rs)
  show ?case
  proof (cases "rs = []")
    case True
    then show ?thesis by simp
  next
    case False
    with Cons have "latest_of rs = Some (last rs)" by simp
    moreover have "timestamp x \<le> timestamp (last rs)"
      using Cons.prems(1) False by simp
    ultimately show ?thesis using False by simp
  qed
qed

subsection \<open>Labels compare as the hours they name\<close>

lemma digit_char_less:
  "a < 10 \<Longrightarrow> b < 10 \<Longrightarrow> char_of (48 + a :: nat) < char_of (48 + b) \<longleftrightarrow> a < b"
  by (simp add: less_char_def)

lemma digit_char_eq:
  "a < 10 \<Longrightarrow> b < 10 \<Longrightarrow> char_of (48 + a :: nat) = char_of (48 + b) \<longleftrightarrow> a = b"
  by simp

lemma nat_less_iff_div_mod_10:
  "(n::nat) < m \<longleftrightarrow> n div 10 < m div 10 \<or> (n div 10 = m div 10 \<and> n mod 10 < m mod 10)"
proof -
  have n: "n = 10 * (n div 10) + n mod 10" and m: "m = 10 * (m div 10) + m mod 10" by simp_all
  have "n mod 10 < 10" "m mod 10 < 10" by simp_all
  then show ?thesis using n m by linarith
qed

lemma two_digits_less:
  assumes "n < 100" "m < 100"
  shows "two_digits n @ s < two_digits m @ s \<longleftrightarrow> n < m"
proof -
  have "n div 10 < 10" "m div 10 < 10" using assms by simp_all
  then show ?thesis
    by (simp add: two_digits_def digit_char_less digit_char_eq nat_less_iff_div_mod_10 [of n m])
qed

lemma two_digits_eq:
  assumes "n < 100" "m < 100"
  shows "two_digits n = two_digits m \<longleftrightarrow> n = m"
proof -
  have "n div 10 < 10" "m div 10 < 10" using assms by simp_all
  moreover have "n = m \<longleftrightarrow> n div 10 = m div 10 \<and> n mod 10 = m mod 10"
    by (metis div_mult_mod_eq)
  ultimately show ?thesis
    by (simp add: two_digits_def digit_char_eq)
qed

lemma hour_of_less: "hour_of t < 24"
  by (simp add: hour_of_def nat_less_iff)

text \<open>C25: comparing two hour labels as strings, as \<open>ORDER BY hour\<close> does, compares
  the hours of the day they name (the labels are zero-padded).\<close>

theorem format_hour_less_iff: "format_hour t1 < format_hour t2 \<longleftrightarrow> hour_of t1 < hour_of t2"
  using hour_of_less [of t1] hour_of_less [of t2]
  by (simp add: format_hour_def two_digits_less)

lemma format_hour_eq_iff: "format_hour t1 = format_hour t2 \<longleftrightarrow> hour_of t1 = hour_of t2"
  using hour_of_less [of t1] hour_of_less [of t2]
  by (simp add: format_hour_def two_digits_eq)

text \<open>C26: readings a day apart get the same label, so they fall into one bucket:
  the grouping forgets the date.\<close>

theorem format_hour_next_day: "format_hour (t + 86400) = format_hour t"
proof -
  have "(t + 86400) div 3600 = t div 3600 + 24" by simp
  then show ?thesis by (simp add: format_hour_def hour_of_def)
qed

subsection \<open>Averages\<close>

lemma sql_avg_bounds:
  assumes "sql_avg xs = Some a" and "\<forall>v\<in>set (nonnull xs). lo \<le> v \<and> v \<le> hi"
  shows "lo \<le> a \<and> a \<le> hi"
proof -
  let ?vs = "nonnull xs"
  from assms(1) have ne: "?vs \<noteq> []" and a: "a = sum_list ?vs / real (length ?vs)"
    by (auto simp: sql_avg_def Let_def split: if_splits)
  have n: "0 < real (length ?vs)" using ne by simp
  have "sum_list (map (\<lambda>_. lo) ?vs) \<le> sum_list (map (\<lambda>v. v) ?vs)"
    by (rule sum_list_mono) (use assms(2) in auto)
  then have lo: "real (length ?vs) * lo \<le> sum_list ?vs" by (simp add: sum_list_triv)
  have "sum_list (map (\<lambda>v. v) ?vs) \<le> sum_list (map (\<lambda>_. hi) ?vs)"
    by (rule sum_list_mono) (use assms(2) in auto)
  then have hi: "sum_list ?vs \<le> real (length ?vs) * hi" by (simp add: sum_list_triv)
  from lo hi n show ?thesis by (simp add: a field_simps)
qed

subsection \<open>The two queries, branch by branch\<close>

lemma get_latest_data_branches:
  "get_latest_data s p =
     (if \<not> reachable s then Inr None
      else if \<not> schema_ok s then Inl QueryError
      else Inr (latest_of (filter (\<lambda>r. parcel_id r = p) (rows s))))"
  by (simp add: model_defs)

lemma get_time_series_data_branches:
  "get_time_series_data s p hours =
     (if \<not> reachable s then Inr []
      else if \<not> schema_ok s then Inl QueryError
      else Inr (hourly_rows (clock s) p hours (rows s)))"
  by (simp add: model_defs)

lemma sorted_hour_labels:
  assumes "sorted_wrt (<) hs" and "\<forall>h\<in>set hs. h < 24"
  shows "sorted_wrt (<) (map (\<lambda>h. two_digits h @ '':00'') hs)"
  using assms by (induction hs) (auto simp: two_digits_less)

lemma hourly_rows_Nil_iff: "hourly_rows now p hours rs = [] \<longleftrightarrow> (\<forall>r\<in>set rs. \<not> in_window now p hours r)"
  by (simp add: hourly_rows_def Let_def filter_empty_conv sort_eq_Nil_iff)

text \<open>C2: a row returned by \<open>get_latest_data\<close> for a parcel is one of the parcel's
  committed rows and has the greatest timestamp among them, as
  \<open>TOP 1 ... ORDER BY [timestamp] DESC\<close> guarantees whichever row it picks on a tie.\<close>

theorem get_latest_data_newest:
  assumes "get_latest_data s p = Inr (Some r)"
  shows "r \<in> set (rows s) \<and> parcel_id r = p \<and>
         (\<forall>x\<in>set (rows s). parcel_id x = p \<longrightarrow> timestamp x \<le> timestamp r)"
proof -
  from assms have l: "latest_of (filter (\<lambda>x. parcel_id x = p) (rows s)) = Some r"
    by (simp add: get_latest_data_branches split: if_splits)
  show ?thesis using latest_of_top1 [OF l] by (simp add: is_top1_desc_def)
qed

theorem get_latest_data_newest_witness:
  "get_latest_data sample_store ''A'' = Inr (Some (sample_rows ! 2)) \<and>
   sample_rows ! 2 \<in> set (rows sample_store) \<and> parcel_id (sample_rows ! 2) = ''A'' \<and>
   timestamp (sample_rows ! 0) \<le> timestamp (sample_rows ! 2)"
proof -
  have h: "get_latest_data sample_store ''A'' = Inr (Some (sample_rows ! 2))"
    by (simp add: get_latest_data_branches sample_store_def sample_rows_def)
  have m: "sample_rows ! 0 \<in> set (rows sample_store)" "parcel_id (sample_rows ! 0) = ''A''"
    by (simp_all add: sample_store_def sample_rows_def)
  show ?thesis using get_latest_data_newest [OF h] h m by blast
qed

text \<open>C3: \<open>get_latest_data\<close> returns no row exactly when the store is unreachable, or
  when the table is readable and holds no row of the parcel; an unreadable table raises.\<close>

theorem get_latest_data_absent:
  "get_latest_data s p = Inr None \<longleftrightarrow>
     \<not> reachable s \<or> (schema_ok s \<and> (\<forall>r\<in>set (rows s). parcel_id r \<noteq> p))"
  by (auto simp: get_latest_data_branches filter_empty_conv)

theorem get_latest_data_absent_witness:
  "get_latest_data sample_store ''C'' = Inr None \<and> reachable sample_store \<and>
   schema_ok sample_store \<and> ''C'' \<notin> parcel_id ` set (rows sample_store)"
proof -
  have h: "schema_ok sample_store \<and> (\<forall>r\<in>set (rows sample_store). parcel_id r \<noteq> ''C'')"
    by (simp add: sample_store_def sample_rows_def)
  then have "get_latest_data sample_store ''C'' = Inr None"
    using get_latest_data_absent [of sample_store "''C''"] by simp
  with h show ?thesis by (auto simp: sample_store_def)
qed

text \<open>C4: the hour labels of the series are the distinct hours of the day of the
  parcel's rows inside the window, each once, in increasing numeric order.\<close>

theorem hourly_rows_hours:
  "map hour (hourly_rows now p hours rs) =
     map (\<lambda>h. two_digits h @ '':00'')
       (sorted_list_of_set ((\<lambda>r. hour_of (timestamp r)) ` set (filter (in_window now p hours) rs)))"
  (is "?L = map ?lab (sorted_list_of_set ?H)")
proof -
  let ?sel = "filter (in_window now p hours) rs"
  have L: "?L = sort (remdups (map (\<lambda>r. format_hour (timestamp r)) ?sel))"
    by (simp add: hourly_rows_def comp_def)
  have H: "\<forall>h\<in>set (sorted_list_of_set ?H). h < 24"
    by (auto simp: hour_of_less)
  have sR: "sorted_wrt (<) (map ?lab (sorted_list_of_set ?H))"
    by (rule sorted_hour_labels [OF _ H]) simp
  have "set (map ?lab (sorted_list_of_set ?H)) = (\<lambda>r. format_hour (timestamp r)) ` set ?sel"
    by (auto simp: format_hour_def image_image)
  moreover have "sorted (map ?lab (sorted_list_of_set ?H))" "distinct (map ?lab (sorted_list_of_set ?H))"
    using sR by (simp_all add: strict_sorted_iff)
  ultimately show ?thesis unfolding L
    by (intro sorted_distinct_set_unique) auto
qed

text \<open>C28: \<open>get_time_series_data\<close> returns an empty series exactly when the store is
  unreachable, or the table is readable and no row of the parcel lies in the window.\<close>

theorem get_time_series_data_empty:
  "get_time_series_data s p hours = Inr [] \<longleftrightarrow>
     \<not> reachable s \<or> (schema_ok s \<and> (\<forall>r\<in>set (rows s). \<not> in_window (clock s) p hours r))"
  by (auto simp: model_defs hourly_rows_Nil_iff)

theorem get_time_series_data_empty_witness:
  "get_time_series_data sample_store ''C'' 12 = Inr [] \<and> reachable sample_store \<and> schema_ok sample_store"
proof -
  have h: "reachable sample_store" "schema_ok sample_store"
    "\<forall>r\<in>set (rows sample_store). \<not> in_window (clock sample_store) ''C'' 12 r"
    by (simp_all add: sample_store_def sample_rows_def in_window_def)
  with get_time_series_data_empty [of sample_store "''C''" 12] show ?thesis by simp
qed

text \<open>C5: every average of the series lies within the bounds of the moisture values of
  the parcel's rows inside the window.\<close>

theorem hourly_rows_avg_bounds:
  assumes "\<forall>r\<in>set rs. in_window now p hours r \<longrightarrow>
             (\<forall>v. soil_moisture r = Some v \<longrightarrow> lo \<le> v \<and> v \<le> hi)"
    and "x \<in> set (hourly_rows now p hours rs)" and "avg_moisture x = Some a"
  shows "lo \<le> a \<and> a \<le> hi"
proof -
  from assms(2) obtain l where
    a: "avg_moisture x = sql_avg (map soil_moisture
          (filter (\<lambda>r. format_hour (timestamp r) = l) (filter (in_window now p hours) rs)))"
    by (auto simp: hourly_rows_def Let_def)
  show ?thesis
    by (rule sql_avg_bounds [OF a [symmetric, unfolded assms(3)]]) (use assms(1) in auto)
qed

theorem hourly_rows_avg_bounds_witness:
  "\<lparr>hour = ''10:00'', avg_moisture = Some 20\<rparr> \<in> set (hourly_rows (11 * 3600) ''A'' 12 sample_rows) \<and>
   (15::real) \<le> 20 \<and> (20::real) \<le> 50"
proof -
  have h1: "\<forall>r\<in>set sample_rows. in_window (11 * 3600) ''A'' 12 r \<longrightarrow>
      (\<forall>v. soil_moisture r = Some v \<longrightarrow> 15 \<le> v \<and> v \<le> 50)"
    by (simp add: sample_rows_def)
  have h2: "\<lparr>hour = ''10:00'', avg_moisture = Some 20\<rparr> \<in> set (hourly_rows (11 * 3600) ''A'' 12 sample_rows)"
    by (simp add: sample_rows_def hourly_rows_def in_window_def format_hour_def hour_of_def
        two_digits_def sql_avg_def char_eval)
  have h3: "avg_moisture \<lparr>hour = ''10:00'', avg_moisture = Some (20::real)\<rparr> = Some 20" by simp
  show ?thesis using hourly_rows_avg_bounds [OF h1 h2 h3] h2 by simp
qed

end
