(* ===== verification/Alert.thy ===== *)
theory Alert
  imports AgriPrelude
begin

text \<open>
  The alert rule, \<open>check_for_alerts\<close> (app.py lines 114--121): a pure function
  of the moisture value returning the dict \<open>{"status": ..., "color": ...}\<close>,
  here the record \<open>alert\<close>. The Turkish status strings are written as their
  UTF-8 bytes. The abstract rule of the specification is \<open>classify\<close> into the
  three tiers; \<open>tier_of_alert\<close> reads the tier off an alert's colour, and the
  lemma shows the code refines the rule.
\<close>

record alert =
  status :: string
  color :: string

text \<open>UTF-8 encodings of the non-ASCII letters of the status strings.\<close>

definition utf8_I_dot :: string where "utf8_I_dot = [CHR 0xC4, CHR 0xB0]"
definition utf8_dotless_i :: string where "utf8_dotless_i = [CHR 0xC4, CHR 0xB1]"
definition utf8_O_uml :: string where "utf8_O_uml = [CHR 0xC3, CHR 0x96]"

definition urgent_alert :: alert where
  "urgent_alert =
     \<lparr>status = ''AC'' @ utf8_I_dot @ ''L SULAMA GEREKL'' @ utf8_I_dot, color = ''red''\<rparr>"

definition advised_alert :: alert where
  "advised_alert =
     \<lparr>status = ''Sulama Yap'' @ utf8_dotless_i @ ''lmas'' @ utf8_dotless_i @ '' ''
               @ utf8_O_uml @ ''nerilir'', color = ''orange''\<rparr>"

definition normal_alert :: alert where
  "normal_alert = \<lparr>status = ''Normal Seviyede'', color = ''green''\<rparr>"

definition check_for_alerts :: "real \<Rightarrow> alert" where
  "check_for_alerts moisture =
     (if moisture < 20.0 then urgent_alert
      else if moisture < 30.0 then advised_alert
      else normal_alert)"

subsection \<open>The rule of the specification\<close>

datatype tier = URGENT | ADVISED | NORMAL

definition classify :: "real \<Rightarrow> tier" where
  "classify m = (if m < 20 then URGENT else if m < 30 then ADVISED else NORMAL)"

definition tier_of_alert :: "alert \<Rightarrow> tier option" where
  "tier_of_alert a =
     (if color a = ''red'' then Some URGENT
      else if color a = ''orange'' then Some ADVISED
      else if color a = ''green'' then Some NORMAL else None)"

lemma alert_colors [simp]:
  "color urgent_alert = ''red''" "color advised_alert = ''orange''" "color normal_alert = ''green''"
  by (simp_all add: urgent_alert_def advised_alert_def normal_alert_def)

lemma tier_of_alert_consts [simp]:
  "tier_of_alert urgent_alert = Some URGENT"
  "tier_of_alert advised_alert = Some ADVISED"
  "tier_of_alert normal_alert = Some NORMAL"
  by (simp_all add: tier_of_alert_def)

text \<open>C1: the alert computed by \<open>check_for_alerts\<close> carries exactly the tier the
  specification's rule assigns: below 20 urgent, from 20 below 30 advised, from 30 normal.\<close>

theorem check_for_alerts_refines_classify:
  "tier_of_alert (check_for_alerts m) = Some (classify m)"
  by (simp add: check_for_alerts_def classify_def)

end
