(* ===== verification/Dashboard.thy ===== *)
theory Dashboard
  imports Query Alert
begin

text \<open>
  The presentation assembly, the body of the route \<open>dashboard\<close> (app.py lines
  125--155): for each parcel of \<open>PARCELS\<close> it calls \<open>get_latest_data\<close>; when a row
  comes back it computes the alert of its moisture, fetches the 12-hour series
  if the parcel is \<open>PARCELS[0]\<close>, and stores the entry
  \<open>{"moisture", "temp", "alert"}\<close> under the parcel's name. A parcel without a row
  gets no entry. The result is the view model passed to \<open>render_template\<close>
  (template rendering itself is not modelled). An exception of a query, or the
  \<open>TypeError\<close> of \<open>check_for_alerts(None)\<close> for a row whose moisture is
  \<open>NULL\<close>, escapes the route. The store is only read, so it is a parameter.
\<close>

record parcel_view =
  moisture :: real
  temp :: "real option"
  alert :: alert

record dash_acc =
  latest_data :: "parcel \<rightharpoonup> parcel_view"
  labels :: "string list"
  moisture_values :: "real option list"

record view_model =
  parcels :: "parcel \<rightharpoonup> parcel_view"
  parcel_ids :: "parcel list"
  chart_labels :: "string list"
  chart_values :: "real option list"

text \<open>The entry of lines 142--146 for a row \<open>d\<close> whose moisture is \<open>m\<close>.\<close>

definition parcel_entry :: "reading \<Rightarrow> real \<Rightarrow> parcel_view" where
  "parcel_entry d m = \<lparr>moisture = m, temp = air_temp d, alert = check_for_alerts m\<rparr>"

text \<open>Lines 137--140: only the first parcel's series goes to the chart.\<close>

definition chart_step :: "store \<Rightarrow> parcel \<Rightarrow> parcel \<Rightarrow> dash_acc \<Rightarrow> py_error + dash_acc" where
  "chart_step s first p acc =
     (if p = first then
        (case get_time_series_data s p 12 of
           Inl e \<Rightarrow> Inl e
         | Inr chart \<Rightarrow> Inr (acc\<lparr>labels := map hour chart,
                                  moisture_values := map avg_moisture chart\<rparr>))
      else Inr acc)"

text \<open>The loop of lines 131--146; \<open>first\<close> is \<open>PARCELS[0]\<close>.\<close>

fun dashboard_loop :: "store \<Rightarrow> parcel \<Rightarrow> parcel list \<Rightarrow> dash_acc \<Rightarrow> py_error + dash_acc" where
  "dashboard_loop s first [] acc = Inr acc"
| "dashboard_loop s first (p # ps) acc =
     (case get_latest_data s p of
        Inl e \<Rightarrow> Inl e
      | Inr None \<Rightarrow> dashboard_loop s first ps acc
      | Inr (Some d) \<Rightarrow>
          (case soil_moisture d of
             None \<Rightarrow> Inl TypeError
           | Some m \<Rightarrow>
               (case chart_step s first p acc of
                  Inl e \<Rightarrow> Inl e
                | Inr acc' \<Rightarrow>
                    dashboard_loop s first ps
                      (acc'\<lparr>latest_data := (latest_data acc')(p \<mapsto> parcel_entry d m)\<rparr>))))"

abbreviation empty_acc :: dash_acc where
  "empty_acc \<equiv> \<lparr>latest_data = Map.empty, labels = [], moisture_values = []\<rparr>"

definition dashboard :: "store \<Rightarrow> py_error + view_model" where
  "dashboard s =
     (case dashboard_loop s (PARCELS ! 0) PARCELS
             \<lparr>latest_data = Map.empty, labels = [], moisture_values = []\<rparr> of
        Inl e \<Rightarrow> Inl e
      | Inr acc \<Rightarrow> Inr \<lparr>parcels = latest_data acc, parcel_ids = PARCELS,
                        chart_labels = labels acc, chart_values = moisture_values acc\<rparr>)"

text \<open>The view the route builds for \<open>sample_parcel_store\<close>.\<close>

definition sample_view :: view_model where
  "sample_view =
     \<lparr>parcels = Map.empty(PARCELS ! 0 \<mapsto> parcel_entry (sample_parcel_rows ! 2) 22,
                          PARCELS ! 1 \<mapsto> parcel_entry (sample_parcel_rows ! 1) 40),
      parcel_ids = PARCELS, chart_labels = [''10:00''], chart_values = [Some 20]\<rparr>"

definition sample_null_store :: store where
  "sample_null_store =
     sample_parcel_store\<lparr>rows := sample_parcel_rows @
       [\<lparr>row_id = 4, parcel_id = PARCELS ! 1, timestamp = 10 * 3600 + 50 * 60,
         soil_moisture = None, air_temp = Some 20.0\<rparr>]\<rparr>"

subsection \<open>The loop\<close>

lemma chart_step_latest:
  "chart_step s first p acc = Inr acc' \<Longrightarrow> latest_data acc' = latest_data acc"
  by (auto simp: chart_step_def split: if_splits sum.splits)

lemma chart_step_chart:
  "chart_step s first p acc = Inr acc' \<Longrightarrow>
     (if p = first then \<exists>ch. get_time_series_data s p 12 = Inr ch \<and>
                           labels acc' = map hour ch \<and> moisture_values acc' = map avg_moisture ch
      else labels acc' = labels acc \<and> moisture_values acc' = moisture_values acc)"
  by (auto simp: chart_step_def split: if_splits sum.splits)

lemma dashboard_loop_entries:
  "dashboard_loop s first ps acc = Inr acc' \<Longrightarrow>
     latest_data acc' p =
       (if p \<in> set ps then
          (case get_latest_data s p of
             Inr (Some d) \<Rightarrow> Some (parcel_entry d (the (soil_moisture d)))
           | _ \<Rightarrow> latest_data acc p)
        else latest_data acc p)"
proof (induction ps arbitrary: acc)
  case Nil
  then show ?case by simp
next
  case (Cons q ps)
  show ?case
  proof (cases "get_latest_data s q")
    case (Inl e)
    with Cons.prems show ?thesis by simp
  next
    case (Inr res)
    show ?thesis
    proof (cases res)
      case None
      with Inr Cons.prems have "dashboard_loop s first ps acc = Inr acc'" by simp
      from Cons.IH [OF this] None Inr show ?thesis by (auto split: sum.splits option.splits)
    next
      case (Some d)
      with Inr Cons.prems obtain m acc1 where m: "soil_moisture d = Some m"
        and c: "chart_step s first q acc = Inr acc1"
        and rest: "dashboard_loop s first ps
                     (acc1\<lparr>latest_data := (latest_data acc1)(q \<mapsto> parcel_entry d m)\<rparr>) = Inr acc'"
        by (auto split: option.splits sum.splits)
      from Cons.IH [OF rest] chart_step_latest [OF c] m Some Inr show ?thesis
        by (auto split: sum.splits option.splits)
    qed
  qed
qed

lemma dashboard_loop_Cons_Inr:
  "dashboard_loop s first (q # ps) acc = Inr acc' \<Longrightarrow> \<exists>acc2. dashboard_loop s first ps acc2 = Inr acc'"
  by (auto split: sum.splits option.splits)

lemma dashboard_loop_moisture:
  "dashboard_loop s first ps acc = Inr acc' \<Longrightarrow> p \<in> set ps \<Longrightarrow>
     \<exists>res. get_latest_data s p = Inr res \<and> (\<forall>d. res = Some d \<longrightarrow> soil_moisture d \<noteq> None)"
proof (induction ps arbitrary: acc)
  case Nil
  then show ?case by simp
next
  case (Cons q ps)
  show ?case
  proof (cases "p = q")
    case True
    with Cons.prems show ?thesis by (auto split: sum.splits option.splits)
  next
    case False
    from dashboard_loop_Cons_Inr [OF Cons.prems(1)] obtain acc2
      where "dashboard_loop s first ps acc2 = Inr acc'" by blast
    from Cons.IH [OF this] False Cons.prems(2) show ?thesis by simp
  qed
qed

lemma dashboard_loop_chart:
  "dashboard_loop s first ps acc = Inr acc' \<Longrightarrow>
     (if first \<in> set ps \<and> (\<exists>d. get_latest_data s first = Inr (Some d))
      then \<exists>ch. get_time_series_data s first 12 = Inr ch \<and>
                labels acc' = map hour ch \<and> moisture_values acc' = map avg_moisture ch
      else labels acc' = labels acc \<and> moisture_values acc' = moisture_values acc)"
proof (induction ps arbitrary: acc)
  case Nil
  then show ?case by simp
next
  case (Cons q ps)
  show ?case
  proof (cases "get_latest_data s q")
    case (Inl e)
    with Cons.prems show ?thesis by simp
  next
    case (Inr res)
    show ?thesis
    proof (cases res)
      case None
      with Inr Cons.prems have "dashboard_loop s first ps acc = Inr acc'" by simp
      from Cons.IH [OF this] None Inr show ?thesis by auto
    next
      case (Some d)
      with Inr Cons.prems obtain m acc1 where m: "soil_moisture d = Some m"
        and c: "chart_step s first q acc = Inr acc1"
        and rest: "dashboard_loop s first ps
                     (acc1\<lparr>latest_data := (latest_data acc1)(q \<mapsto> parcel_entry d m)\<rparr>) = Inr acc'"
        by (auto split: option.splits sum.splits)
      note IH = Cons.IH [OF rest]
      note C = chart_step_chart [OF c]
      show ?thesis
      proof (cases "first \<in> set ps \<and> (\<exists>d. get_latest_data s first = Inr (Some d))")
        case True
        with IH show ?thesis by auto
      next
        case F: False
        with IH have "labels acc' = labels acc1" "moisture_values acc' = moisture_values acc1" by simp_all
        with C F Some Inr show ?thesis by (auto split: if_splits)
      qed
    qed
  qed
qed


lemma dashboard_loop_unreachable:
  "\<not> reachable s \<Longrightarrow> dashboard_loop s first ps acc = Inr acc"
  by (induction ps) (simp_all add: model_defs)

lemma chart_step_total:
  "reachable s \<Longrightarrow> schema_ok s \<Longrightarrow> \<exists>acc1. chart_step s first p acc = Inr acc1"
  by (simp add: chart_step_def model_defs)

lemma dashboard_loop_errors:
  assumes "reachable s" and "schema_ok s" and "dashboard_loop s first ps acc = Inl e"
  shows "e = TypeError \<and> (\<exists>p\<in>set ps. \<exists>d. get_latest_data s p = Inr (Some d) \<and> soil_moisture d = None)"
  using assms(3)
proof (induction ps arbitrary: acc)
  case Nil
  then show ?case by simp
next
  case (Cons q ps)
  have lat: "get_latest_data s q = Inr (latest_of (filter (\<lambda>r. parcel_id r = q) (rows s)))"
    using assms(1,2) by (simp add: model_defs)
  show ?case
  proof (cases "latest_of (filter (\<lambda>r. parcel_id r = q) (rows s))")
    case None
    with Cons.prems lat have "dashboard_loop s first ps acc = Inl e" by simp
    from Cons.IH [OF this] show ?thesis by auto
  next
    case (Some d)
    show ?thesis
    proof (cases "soil_moisture d")
      case None
      with Cons.prems lat Some show ?thesis by auto
    next
      case (Some m)
      obtain acc1 where c: "chart_step s first q acc = Inr acc1"
        using chart_step_total [OF assms(1,2)] by blast
      with Cons.prems lat \<open>latest_of _ = Some d\<close> Some
      have "dashboard_loop s first ps (acc1\<lparr>latest_data := (latest_data acc1)(q \<mapsto> parcel_entry d m)\<rparr>) = Inl e"
        by simp
      from Cons.IH [OF this] show ?thesis by auto
    qed
  qed
qed

lemma dashboard_Inr:
  "dashboard s = Inr v \<longleftrightarrow>
     (\<exists>acc. dashboard_loop s (PARCELS ! 0) PARCELS empty_acc = Inr acc \<and>
            v = \<lparr>parcels = latest_data acc, parcel_ids = PARCELS,
                 chart_labels = labels acc, chart_values = moisture_values acc\<rparr>)"
  by (auto simp: dashboard_def split: sum.splits)

lemma dashboard_sample: "dashboard sample_parcel_store = Inr sample_view"
  by (simp add: dashboard_def chart_step_def model_defs sample_view_def
      sample_parcel_store_def sample_store_def sample_parcel_rows_def PARCELS_def hourly_rows_def
      in_window_def format_hour_def hour_of_def two_digits_def sql_avg_def char_eval)

subsection \<open>Properties of the view\<close>

text \<open>C11: a parcel has an entry in the view exactly when it is one of \<open>PARCELS\<close> and
  \<open>get_latest_data\<close> returns a row for it: absent means invisible, no placeholder row.\<close>

theorem dashboard_absent_invisible:
  assumes "dashboard s = Inr v"
  shows "p \<in> dom (parcels v) \<longleftrightarrow> p \<in> set PARCELS \<and> (\<exists>d. get_latest_data s p = Inr (Some d))"
proof -
  from assms obtain acc where loop: "dashboard_loop s (PARCELS ! 0) PARCELS empty_acc = Inr acc"
    and v: "parcels v = latest_data acc" by (auto simp: dashboard_Inr)
  have "latest_data empty_acc p = None" by simp
  then show ?thesis using dashboard_loop_entries [OF loop, of p] v
    by (auto split: sum.splits option.splits if_splits)
qed

theorem dashboard_absent_invisible_witness:
  "dashboard sample_parcel_store = Inr sample_view \<and>
   (PARCELS ! 1 \<in> dom (parcels sample_view) \<longleftrightarrow>
      PARCELS ! 1 \<in> set PARCELS \<and> (\<exists>d. get_latest_data sample_parcel_store (PARCELS ! 1) = Inr (Some d)))"
  using dashboard_absent_invisible [OF dashboard_sample] dashboard_sample by simp

text \<open>C12: the entry of a parcel holds the moisture and temperature of its latest row and
  the alert \<open>check_for_alerts\<close> computes from that moisture.\<close>

theorem dashboard_entry:
  assumes "dashboard s = Inr v" and "parcels v p = Some e"
  shows "\<exists>d m. get_latest_data s p = Inr (Some d) \<and> soil_moisture d = Some m \<and>
               moisture e = m \<and> temp e = air_temp d \<and> alert e = check_for_alerts m"
proof -
  from assms(1) obtain acc where loop: "dashboard_loop s (PARCELS ! 0) PARCELS empty_acc = Inr acc"
    and v: "parcels v = latest_data acc" by (auto simp: dashboard_Inr)
  from dashboard_loop_entries [OF loop, of p] assms(2) v obtain d where
    p: "p \<in> set PARCELS" and d: "get_latest_data s p = Inr (Some d)"
    and e: "e = parcel_entry d (the (soil_moisture d))"
    by (auto split: if_splits sum.splits option.splits)
  from dashboard_loop_moisture [OF loop p] d obtain m where "soil_moisture d = Some m" by auto
  with d e show ?thesis by (simp add: parcel_entry_def)
qed

theorem dashboard_entry_witness:
  "dashboard sample_parcel_store = Inr sample_view \<and>
   parcels sample_view (PARCELS ! 0) = Some (parcel_entry (sample_parcel_rows ! 2) 22) \<and>
   (\<exists>d m. get_latest_data sample_parcel_store (PARCELS ! 0) = Inr (Some d) \<and> soil_moisture d = Some m \<and>
          moisture (parcel_entry (sample_parcel_rows ! 2) 22) = m \<and>
          alert (parcel_entry (sample_parcel_rows ! 2) 22) = check_for_alerts m)"
proof -
  have h: "parcels sample_view (PARCELS ! 0) = Some (parcel_entry (sample_parcel_rows ! 2) 22)"
    by (simp add: sample_view_def PARCELS_def)
  show ?thesis using dashboard_entry [OF dashboard_sample h] dashboard_sample h by blast
qed

text \<open>C13: the chart holds the 12-hour series of \<open>PARCELS[0]\<close> when that parcel has a
  row, and is empty otherwise, whatever the other parcels hold.\<close>

theorem dashboard_chart:
  assumes "dashboard s = Inr v"
  shows "(if \<exists>d. get_latest_data s (PARCELS ! 0) = Inr (Some d)
          then \<exists>ch. get_time_series_data s (PARCELS ! 0) 12 = Inr ch \<and>
                    chart_labels v = map hour ch \<and> chart_values v = map avg_moisture ch
          else chart_labels v = [] \<and> chart_values v = [])"
proof -
  from assms obtain acc where loop: "dashboard_loop s (PARCELS ! 0) PARCELS empty_acc = Inr acc"
    and v: "chart_labels v = labels acc" "chart_values v = moisture_values acc"
    by (auto simp: dashboard_Inr)
  have "PARCELS ! 0 \<in> set PARCELS" by (simp add: PARCELS_def)
  with dashboard_loop_chart [OF loop] v show ?thesis by (auto split: if_splits)
qed

theorem dashboard_chart_witness:
  "dashboard sample_parcel_store = Inr sample_view \<and>
   (\<exists>ch. get_time_series_data sample_parcel_store (PARCELS ! 0) 12 = Inr ch \<and>
         chart_labels sample_view = map hour ch \<and> chart_values sample_view = map avg_moisture ch)"
proof -
  have "\<exists>d. get_latest_data sample_parcel_store (PARCELS ! 0) = Inr (Some d)"
    by (simp add: model_defs sample_parcel_store_def sample_store_def sample_parcel_rows_def PARCELS_def)
  then show ?thesis using dashboard_chart [OF dashboard_sample] dashboard_sample by simp
qed

text \<open>C14: against an unreachable store the route still renders: every parcel is
  omitted and the chart is empty, with no sign of the outage.\<close>

theorem dashboard_unreachable:
  "\<not> reachable s \<Longrightarrow>
   dashboard s = Inr \<lparr>parcels = Map.empty, parcel_ids = PARCELS, chart_labels = [], chart_values = []\<rparr>"
  by (simp add: dashboard_def dashboard_loop_unreachable)

theorem dashboard_unreachable_witness:
  "dashboard (sample_parcel_store\<lparr>reachable := False\<rparr>) =
   Inr \<lparr>parcels = Map.empty, parcel_ids = PARCELS, chart_labels = [], chart_values = []\<rparr>"
  using dashboard_unreachable [of "sample_parcel_store\<lparr>reachable := False\<rparr>"] by simp

text \<open>C15: when the store is reachable but the table is missing, the first query raises
  and the route fails with \<open>QueryError\<close>: statement errors are not turned into empty
  results.\<close>

theorem dashboard_missing_table:
  "reachable s \<Longrightarrow> \<not> schema_ok s \<Longrightarrow> dashboard s = Inl QueryError"
  by (simp add: dashboard_def PARCELS_def model_defs)

theorem dashboard_missing_table_witness:
  "dashboard (sample_parcel_store\<lparr>schema_ok := False\<rparr>) = Inl QueryError"
  using dashboard_missing_table [of "sample_parcel_store\<lparr>schema_ok := False\<rparr>"]
  by (simp add: sample_parcel_store_def sample_store_def)

text \<open>C16: on a readable store the route fails exactly when the latest row of some parcel
  has a \<open>NULL\<close> moisture, and then with the \<open>TypeError\<close> of \<open>check_for_alerts(None)\<close>.\<close>

theorem dashboard_null_moisture:
  assumes "reachable s" and "schema_ok s"
  shows "(case dashboard s of
            Inl e \<Rightarrow> e = TypeError \<and>
                     (\<exists>p\<in>set PARCELS. \<exists>d. get_latest_data s p = Inr (Some d) \<and> soil_moisture d = None)
          | Inr v \<Rightarrow> (\<forall>p\<in>set PARCELS. \<forall>d. get_latest_data s p = Inr (Some d) \<longrightarrow> soil_moisture d \<noteq> None))"
proof (cases "dashboard s")
  case (Inl e)
  then have "dashboard_loop s (PARCELS ! 0) PARCELS empty_acc = Inl e"
    by (auto simp: dashboard_def split: sum.splits)
  with dashboard_loop_errors [OF assms] Inl show ?thesis by simp
next
  case (Inr v)
  then obtain acc where loop: "dashboard_loop s (PARCELS ! 0) PARCELS empty_acc = Inr acc"
    by (auto simp: dashboard_Inr)
  with Inr show ?thesis using dashboard_loop_moisture [OF loop] by fastforce
qed

theorem dashboard_null_moisture_witness:
  "dashboard sample_null_store = Inl TypeError \<and>
   (\<exists>p d. p \<in> set PARCELS \<and> get_latest_data sample_null_store p = Inr (Some d) \<and>
          soil_moisture d = None)"
proof -
  have h: "reachable sample_null_store" "schema_ok sample_null_store"
    by (simp_all add: sample_null_store_def sample_parcel_store_def sample_store_def)
  have "dashboard sample_null_store = Inl TypeError"
    by (simp add: dashboard_def chart_step_def model_defs sample_null_store_def
        sample_parcel_store_def sample_store_def sample_parcel_rows_def PARCELS_def hourly_rows_def
        in_window_def format_hour_def hour_of_def two_digits_def sql_avg_def char_eval)
  with dashboard_null_moisture [OF h] show ?thesis by auto
qed

end
