(* ===== verification/System.thy ===== *)
theory System
  imports Ingestion Dashboard
begin

text \<open>
  The running program (app.py lines 157--169): a \<open>BackgroundScheduler\<close> runs
  \<open>simulate_and_insert_data\<close> every minute from \<open>scheduler.start()\<close> on, the
  Flask server answers \<open>dashboard\<close> requests, and \<open>atexit\<close> shuts the
  scheduler down. An exception of the job is logged by the scheduler, which
  keeps the schedule. The system state is the store and the scheduler;
  \<open>sys_step\<close> is one step of the program or of its environment (time passes,
  the store goes down or comes back, someone inserts a row by hand), and
  \<open>normal_step\<close> excludes the manual insert. Requests only read the store; theory
  \<open>Interleave\<close> interleaves their statements with these steps.
  The lemmas show by rule induction that without manual inserts the
  timestamps are in insertion order, so \<open>get_latest_data\<close> returns the parcel's last inserted
  row, that nothing is inserted after shutdown, and that \<open>run_ticks\<close>, the
  schedule run for \<open>n\<close> minutes, is an execution of the step relation that
  adds one batch per minute.
\<close>

datatype lifecycle = NotStarted | Running | Stopped

record sched =
  lifecycle :: lifecycle
  next_run :: timestamp

record sys =
  db :: store
  sched :: sched

text \<open>\<open>trigger="interval", minutes=1\<close>: the job runs every 60 seconds.\<close>

definition INTERVAL :: int where
  "INTERVAL = 60"

text \<open>\<open>scheduler.start()\<close>: the first run is one interval after the start.\<close>

definition scheduler_start :: "sys \<Rightarrow> sys" where
  "scheduler_start \<sigma> =
     \<sigma>\<lparr>sched := \<lparr>lifecycle = Running, next_run = clock (db \<sigma>) + INTERVAL\<rparr>\<rparr>"

text \<open>A due run: the job runs, its exception (if any) is logged, the next run is planned.\<close>

definition scheduler_fire :: "(nat \<Rightarrow> real) \<Rightarrow> sys \<Rightarrow> sys" where
  "scheduler_fire rnd \<sigma> =
     \<sigma>\<lparr>db := fst (simulate_and_insert_data rnd (db \<sigma>)),
       sched := (sched \<sigma>)\<lparr>next_run := next_run (sched \<sigma>) + INTERVAL\<rparr>\<rparr>"

text \<open>\<open>atexit.register(lambda: scheduler.shutdown())\<close>.\<close>

definition scheduler_shutdown :: "sys \<Rightarrow> sys" where
  "scheduler_shutdown \<sigma> = \<sigma>\<lparr>sched := (sched \<sigma>)\<lparr>lifecycle := Stopped\<rparr>\<rparr>"

text \<open>A manual or backfill \<open>INSERT\<close> with an explicit timestamp.\<close>

definition manual_insert ::
  "parcel \<Rightarrow> timestamp \<Rightarrow> real option \<Rightarrow> real option \<Rightarrow> sys \<Rightarrow> sys" where
  "manual_insert p t m tp \<sigma> =
     \<sigma>\<lparr>db := (db \<sigma>)\<lparr>rows := rows (db \<sigma>) @
                        [\<lparr>row_id = next_id (db \<sigma>), parcel_id = p, timestamp = t,
                          soil_moisture = m, air_temp = tp\<rparr>],
                      next_id := next_id (db \<sigma>) + 1\<rparr>\<rparr>"

inductive normal_step :: "sys \<Rightarrow> sys \<Rightarrow> bool" where
  start: "lifecycle (sched \<sigma>) = NotStarted \<Longrightarrow> normal_step \<sigma> (scheduler_start \<sigma>)"
| fire: "lifecycle (sched \<sigma>) = Running \<Longrightarrow> clock (db \<sigma>) = next_run (sched \<sigma>) \<Longrightarrow>
         normal_step \<sigma> (scheduler_fire rnd \<sigma>)"
| time: "clock (db \<sigma>) < t \<Longrightarrow> (lifecycle (sched \<sigma>) = Running \<longrightarrow> t \<le> next_run (sched \<sigma>)) \<Longrightarrow>
         normal_step \<sigma> (\<sigma>\<lparr>db := (db \<sigma>)\<lparr>clock := t\<rparr>\<rparr>)"
| outage: "normal_step \<sigma> (\<sigma>\<lparr>db := (db \<sigma>)\<lparr>reachable := b\<rparr>\<rparr>)"
| shutdown: "lifecycle (sched \<sigma>) = Running \<Longrightarrow> normal_step \<sigma> (scheduler_shutdown \<sigma>)"

inductive sys_step :: "sys \<Rightarrow> sys \<Rightarrow> bool" where
  normal: "normal_step \<sigma> \<sigma>' \<Longrightarrow> sys_step \<sigma> \<sigma>'"
| manual: "sys_step \<sigma> (manual_insert p t m tp \<sigma>)"

text \<open>A fresh start: an empty table (as \<open>db_setup.py\<close> creates it), scheduler not started.\<close>

definition init_sys :: "sys \<Rightarrow> bool" where
  "init_sys \<sigma> \<longleftrightarrow> rows (db \<sigma>) = [] \<and> lifecycle (sched \<sigma>) = NotStarted"

inductive reach :: "sys \<Rightarrow> bool" where
  init: "init_sys \<sigma> \<Longrightarrow> reach \<sigma>"
| step: "reach \<sigma> \<Longrightarrow> sys_step \<sigma> \<sigma>' \<Longrightarrow> reach \<sigma>'"

inductive reach_normal :: "sys \<Rightarrow> bool" where
  init: "init_sys \<sigma> \<Longrightarrow> reach_normal \<sigma>"
| step: "reach_normal \<sigma> \<Longrightarrow> normal_step \<sigma> \<sigma>' \<Longrightarrow> reach_normal \<sigma>'"

text \<open>
  The schedule run for \<open>n\<close> minutes: wait for the next run, fire it, repeat;
  the \<open>i\<close>-th run draws from the random stream \<open>rnds i\<close>.
\<close>

fun run_ticks :: "nat \<Rightarrow> (nat \<Rightarrow> nat \<Rightarrow> real) \<Rightarrow> sys \<Rightarrow> sys" where
  "run_ticks 0 rnds \<sigma> = \<sigma>"
| "run_ticks (Suc n) rnds \<sigma> =
     run_ticks n (\<lambda>i. rnds (Suc i))
       (scheduler_fire (rnds 0) (\<sigma>\<lparr>db := (db \<sigma>)\<lparr>clock := next_run (sched \<sigma>)\<rparr>\<rparr>))"

text \<open>While the scheduler runs, the clock has not passed the next planned run.\<close>

definition sched_ok :: "sys \<Rightarrow> bool" where
  "sched_ok \<sigma> \<longleftrightarrow> (lifecycle (sched \<sigma>) = Running \<longrightarrow> clock (db \<sigma>) \<le> next_run (sched \<sigma>))"

text \<open>A fresh system on the sample store's settings, before \<open>scheduler.start()\<close>.\<close>

definition sample_sys0 :: sys where
  "sample_sys0 = \<lparr>db = sample_store\<lparr>rows := []\<rparr>, sched = \<lparr>lifecycle = NotStarted, next_run = 0\<rparr>\<rparr>"

subsection \<open>Invariants of the reachable states\<close>

lemmas sys_ops_defs = scheduler_start_def scheduler_fire_def scheduler_shutdown_def manual_insert_def

lemma normal_step_ts_ok: "normal_step \<sigma> \<sigma>' \<Longrightarrow> ts_ok (db \<sigma>) \<Longrightarrow> ts_ok (db \<sigma>')"
proof (induction rule: normal_step.induct)
  case (fire \<sigma> rnd)
  then show ?case by (simp add: scheduler_fire_def simulate_ts_ok)
next
  case (time \<sigma> t)
  then show ?case by (fastforce simp: ts_ok_def)
qed (simp_all add: sys_ops_defs ts_ok_def)

lemma reach_normal_ts_ok: "reach_normal \<sigma> \<Longrightarrow> ts_ok (db \<sigma>)"
proof (induction rule: reach_normal.induct)
  case (init \<sigma>)
  then show ?case by (simp add: init_sys_def ts_ok_def)
next
  case (step \<sigma> \<sigma>')
  from step.hyps(2) step.IH show ?case by (rule normal_step_ts_ok)
qed

lemma normal_step_sched_ok: "normal_step \<sigma> \<sigma>' \<Longrightarrow> sched_ok \<sigma> \<Longrightarrow> sched_ok \<sigma>'"
  by (induction rule: normal_step.induct)
     (auto simp: sched_ok_def sys_ops_defs INTERVAL_def simulate_env)

lemma reach_normal_sched_ok: "reach_normal \<sigma> \<Longrightarrow> sched_ok \<sigma>"
proof (induction rule: reach_normal.induct)
  case (init \<sigma>)
  then show ?case by (simp add: init_sys_def sched_ok_def)
next
  case (step \<sigma> \<sigma>')
  from step.hyps(2) step.IH show ?case by (rule normal_step_sched_ok)
qed

lemma reach_normal_star: "normal_step\<^sup>*\<^sup>* \<sigma> \<sigma>' \<Longrightarrow> reach_normal \<sigma> \<Longrightarrow> reach_normal \<sigma>'"
  by (induction rule: rtranclp_induct) (auto intro: reach_normal.step)

lemma reach_normal_reach: "reach_normal \<sigma> \<Longrightarrow> reach \<sigma>"
  by (induction rule: reach_normal.induct) (auto intro: reach.intros sys_step.normal)

lemma wait_step:
  assumes "lifecycle (sched \<sigma>) = Running" and "clock (db \<sigma>) \<le> next_run (sched \<sigma>)"
  shows "normal_step\<^sup>*\<^sup>* \<sigma> (\<sigma>\<lparr>db := (db \<sigma>)\<lparr>clock := next_run (sched \<sigma>)\<rparr>\<rparr>)"
proof (cases "clock (db \<sigma>) < next_run (sched \<sigma>)")
  case True
  with assms(1) show ?thesis by (blast intro: normal_step.time)
next
  case False
  with assms(2) have "\<sigma>\<lparr>db := (db \<sigma>)\<lparr>clock := next_run (sched \<sigma>)\<rparr>\<rparr> = \<sigma>" by simp
  then show ?thesis by simp
qed

lemma run_ticks_exec:
  "lifecycle (sched \<sigma>) = Running \<Longrightarrow> clock (db \<sigma>) \<le> next_run (sched \<sigma>) \<Longrightarrow>
   normal_step\<^sup>*\<^sup>* \<sigma> (run_ticks n rnds \<sigma>)"
proof (induction n arbitrary: rnds \<sigma>)
  case 0
  then show ?case by simp
next
  case (Suc n)
  let ?\<sigma>1 = "\<sigma>\<lparr>db := (db \<sigma>)\<lparr>clock := next_run (sched \<sigma>)\<rparr>\<rparr>"
  let ?\<sigma>2 = "scheduler_fire (rnds 0) ?\<sigma>1"
  have w: "normal_step\<^sup>*\<^sup>* \<sigma> ?\<sigma>1" using Suc.prems by (rule wait_step)
  have f: "normal_step ?\<sigma>1 ?\<sigma>2" using Suc.prems(1) by (intro normal_step.fire) simp_all
  have "lifecycle (sched ?\<sigma>2) = Running" "clock (db ?\<sigma>2) \<le> next_run (sched ?\<sigma>2)"
    using Suc.prems(1) by (simp_all add: scheduler_fire_def simulate_env INTERVAL_def)
  then have "normal_step\<^sup>*\<^sup>* ?\<sigma>2 (run_ticks n (\<lambda>i. rnds (Suc i)) ?\<sigma>2)" by (rule Suc.IH)
  with w f show ?case by simp
qed

lemma length_batch_rows [simp]: "length (batch_rows rnd k ps n t) = length ps"
  by (induction ps arbitrary: k n) simp_all

lemma batch_accepted_all: "\<forall>p m t. accepts s p m t \<Longrightarrow> batch_accepted rnd k ps s"
  by (induction ps arbitrary: k) simp_all

lemma run_ticks_rows:
  "lifecycle (sched \<sigma>) = Running \<Longrightarrow> reachable (db \<sigma>) \<Longrightarrow> schema_ok (db \<sigma>) \<Longrightarrow>
   \<forall>p m t. accepts (db \<sigma>) p m t \<Longrightarrow>
   length (rows (db (run_ticks n rnds \<sigma>))) = length (rows (db \<sigma>)) + n * length PARCELS \<and>
   next_run (sched (run_ticks n rnds \<sigma>)) = next_run (sched \<sigma>) + int n * INTERVAL"
proof (induction n arbitrary: rnds \<sigma>)
  case 0
  then show ?case by simp
next
  case (Suc n)
  let ?s1 = "(db \<sigma>)\<lparr>clock := next_run (sched \<sigma>)\<rparr>"
  let ?\<sigma>2 = "scheduler_fire (rnds 0) (\<sigma>\<lparr>db := ?s1\<rparr>)"
  have acc: "batch_accepted (rnds 0) 0 PARCELS ?s1" using Suc.prems(4) by (simp add: batch_accepted_all)
  have "lifecycle (sched ?\<sigma>2) = Running" "reachable (db ?\<sigma>2)" "schema_ok (db ?\<sigma>2)"
    "\<forall>p m t. accepts (db ?\<sigma>2) p m t"
    using Suc.prems by (simp_all add: scheduler_fire_def simulate_env)
  note IH = Suc.IH [OF this, of "\<lambda>i. rnds (Suc i)"]
  have "length (rows (db ?\<sigma>2)) = length (rows (db \<sigma>)) + length PARCELS"
    using Suc.prems(2,3) acc by (simp add: scheduler_fire_def simulate_rows)
  with IH show ?case by (simp add: scheduler_fire_def algebra_simps)
qed

lemma stopped_step:
  "normal_step \<sigma> \<sigma>' \<Longrightarrow> lifecycle (sched \<sigma>) = Stopped \<Longrightarrow>
   rows (db \<sigma>') = rows (db \<sigma>) \<and> lifecycle (sched \<sigma>') = Stopped"
  by (induction rule: normal_step.induct) (simp_all add: sys_ops_defs)

lemma sample_started: "reach_normal (scheduler_start sample_sys0)"
proof -
  have "reach_normal sample_sys0" by (rule reach_normal.init) (simp add: init_sys_def sample_sys0_def)
  then show ?thesis by (rule reach_normal.step) (rule normal_step.start, simp add: sample_sys0_def)
qed

lemma sample_run_reach: "reach_normal (run_ticks n rnds (scheduler_start sample_sys0))"
proof (rule reach_normal_star [OF run_ticks_exec sample_started])
  show "lifecycle (sched (scheduler_start sample_sys0)) = Running"
    "clock (db (scheduler_start sample_sys0)) \<le> next_run (sched (scheduler_start sample_sys0))"
    by (simp_all add: scheduler_start_def INTERVAL_def)
qed

subsection \<open>Properties of the running system\<close>

text \<open>C17: without manual inserts, once a parcel has rows, \<open>get_latest_data\<close> returns the
  last row inserted for it (the N-th of N inserts).\<close>

theorem latest_is_last_insert:
  assumes "reach_normal \<sigma>" and "reachable (db \<sigma>)" and "schema_ok (db \<sigma>)"
    and "\<exists>r\<in>set (rows (db \<sigma>)). parcel_id r = p"
  shows "get_latest_data (db \<sigma>) p = Inr (Some (last (filter (\<lambda>r. parcel_id r = p) (rows (db \<sigma>)))))"
proof -
  have "sorted (map timestamp (rows (db \<sigma>)))"
    using reach_normal_ts_ok [OF assms(1)] by (simp add: ts_ok_def)
  then have "sorted (map timestamp (filter (\<lambda>r. parcel_id r = p) (rows (db \<sigma>))))"
    by (rule sorted_filter)
  moreover have "filter (\<lambda>r. parcel_id r = p) (rows (db \<sigma>)) \<noteq> []"
    using assms(4) by (simp add: filter_empty_conv)
  ultimately show ?thesis using assms(2,3)
    by (simp add: model_defs latest_of_sorted)
qed

theorem latest_is_last_insert_witness:
  "reach_normal (run_ticks 1 (\<lambda>_ _. 0) (scheduler_start sample_sys0)) \<and>
   get_latest_data (db (run_ticks 1 (\<lambda>_ _. 0) (scheduler_start sample_sys0))) (PARCELS ! 0) =
     Inr (Some (last (filter (\<lambda>r. parcel_id r = PARCELS ! 0)
                        (rows (db (run_ticks 1 (\<lambda>_ _. 0) (scheduler_start sample_sys0)))))))"
proof -
  let ?\<sigma> = "run_ticks 1 (\<lambda>_ _. 0) (scheduler_start sample_sys0)"
  have r: "reach_normal ?\<sigma>" by (rule sample_run_reach)
  have e: "reachable (db ?\<sigma>)" "schema_ok (db ?\<sigma>)" "\<exists>r\<in>set (rows (db ?\<sigma>)). parcel_id r = PARCELS ! 0"
    by (simp_all add: scheduler_start_def scheduler_fire_def sample_sys0_def sample_store_def
        simulate_cases PARCELS_def)
  from latest_is_last_insert [OF r e] r show ?thesis by simp
qed

text \<open>C20: a manual insert with an old timestamp breaks this silently: there is a reachable
  state in which \<open>get_latest_data\<close> does not return the parcel's last inserted row.\<close>

theorem manual_insert_hides_latest:
  "reach (manual_insert (PARCELS ! 0) 0 (Some 30) None (run_ticks 1 (\<lambda>_ _. 0) (scheduler_start sample_sys0))) \<and>
   get_latest_data (db (manual_insert (PARCELS ! 0) 0 (Some 30) None
                          (run_ticks 1 (\<lambda>_ _. 0) (scheduler_start sample_sys0)))) (PARCELS ! 0) \<noteq>
   Inr (Some (last (filter (\<lambda>r. parcel_id r = PARCELS ! 0)
     (rows (db (manual_insert (PARCELS ! 0) 0 (Some 30) None
                  (run_ticks 1 (\<lambda>_ _. 0) (scheduler_start sample_sys0))))))))"
proof -
  let ?\<sigma> = "run_ticks 1 (\<lambda>_ _. 0) (scheduler_start sample_sys0)"
  have r: "reach ?\<sigma>" by (rule reach_normal_reach [OF sample_run_reach])
  have "reach (manual_insert (PARCELS ! 0) 0 (Some 30) None ?\<sigma>)"
    by (rule reach.step [OF r sys_step.manual])
  moreover have "get_latest_data (db (manual_insert (PARCELS ! 0) 0 (Some 30) None ?\<sigma>)) (PARCELS ! 0) \<noteq>
     Inr (Some (last (filter (\<lambda>r. parcel_id r = PARCELS ! 0)
       (rows (db (manual_insert (PARCELS ! 0) 0 (Some 30) None ?\<sigma>))))))"
    by (simp add: manual_insert_def scheduler_start_def scheduler_fire_def sample_sys0_def
        sample_store_def simulate_cases PARCELS_def model_defs INTERVAL_def)
  ultimately show ?thesis by blast
qed

text \<open>C19: after \<open>scheduler.shutdown()\<close>, from whatever state it was called in, no later
  step of the program inserts a row and the scheduler stays stopped.\<close>

theorem shutdown_stops_inserts:
  assumes "normal_step\<^sup>*\<^sup>* (scheduler_shutdown \<sigma>) \<sigma>'"
  shows "rows (db \<sigma>') = rows (db \<sigma>) \<and> lifecycle (sched \<sigma>') = Stopped"
  using assms
proof (induction rule: rtranclp_induct)
  case base
  then show ?case by (simp add: scheduler_shutdown_def)
next
  case (step \<sigma>1 \<sigma>2)
  from step.IH have "lifecycle (sched \<sigma>1) = Stopped" by simp
  with step.hyps(2) have "rows (db \<sigma>2) = rows (db \<sigma>1) \<and> lifecycle (sched \<sigma>2) = Stopped"
    by (rule stopped_step)
  with step.IH show ?case by simp
qed

theorem shutdown_stops_inserts_witness:
  "normal_step\<^sup>*\<^sup>* (scheduler_shutdown (scheduler_start sample_sys0))
     ((scheduler_shutdown (scheduler_start sample_sys0))\<lparr>db :=
        (db (scheduler_shutdown (scheduler_start sample_sys0)))\<lparr>reachable := False\<rparr>\<rparr>) \<and>
   rows (db ((scheduler_shutdown (scheduler_start sample_sys0))\<lparr>db :=
        (db (scheduler_shutdown (scheduler_start sample_sys0)))\<lparr>reachable := False\<rparr>\<rparr>)) =
   rows (db (scheduler_start sample_sys0))"
proof -
  let ?\<sigma> = "scheduler_shutdown (scheduler_start sample_sys0)"
  have st: "normal_step\<^sup>*\<^sup>* ?\<sigma> (?\<sigma>\<lparr>db := (db ?\<sigma>)\<lparr>reachable := False\<rparr>\<rparr>)"
    by (blast intro: normal_step.outage)
  from shutdown_stops_inserts [OF st] st show ?thesis by simp
qed

text \<open>C18: with the scheduler running and every insert accepted, running the schedule for
  \<open>n\<close> minutes is an execution of the program that adds exactly \<open>n\<close> batches of one row
  per parcel and plans the next run \<open>n\<close> intervals later.\<close>

theorem run_ticks_liveness:
  assumes "reach_normal \<sigma>" and "lifecycle (sched \<sigma>) = Running"
    and "reachable (db \<sigma>)" and "schema_ok (db \<sigma>)" and "\<forall>p m t. accepts (db \<sigma>) p m t"
  shows "reach_normal (run_ticks n rnds \<sigma>) \<and>
         length (rows (db (run_ticks n rnds \<sigma>))) = length (rows (db \<sigma>)) + n * length PARCELS \<and>
         next_run (sched (run_ticks n rnds \<sigma>)) = next_run (sched \<sigma>) + int n * INTERVAL"
proof -
  have "clock (db \<sigma>) \<le> next_run (sched \<sigma>)"
    using reach_normal_sched_ok [OF assms(1)] assms(2) by (simp add: sched_ok_def)
  with assms(2) have "normal_step\<^sup>*\<^sup>* \<sigma> (run_ticks n rnds \<sigma>)" by (rule run_ticks_exec)
  then have "reach_normal (run_ticks n rnds \<sigma>)" using assms(1) by (rule reach_normal_star)
  with run_ticks_rows [OF assms(2-5)] show ?thesis by simp
qed

theorem run_ticks_liveness_witness:
  "reach_normal (run_ticks 3 (\<lambda>_ _. 0) (scheduler_start sample_sys0)) \<and>
   length (rows (db (run_ticks 3 (\<lambda>_ _. 0) (scheduler_start sample_sys0)))) = 6"
proof -
  have h: "lifecycle (sched (scheduler_start sample_sys0)) = Running"
    "reachable (db (scheduler_start sample_sys0))" "schema_ok (db (scheduler_start sample_sys0))"
    "\<forall>p m t. accepts (db (scheduler_start sample_sys0)) p m t"
    by (simp_all add: scheduler_start_def sample_sys0_def sample_store_def)
  from run_ticks_liveness [OF sample_started h, of 3 "\<lambda>_ _. 0"] show ?thesis
    by (simp add: scheduler_start_def sample_sys0_def PARCELS_def)
qed

end
