(* ===== verification/Interleave.thy ===== *)
theory Interleave
  imports System
begin

text \<open>
  A request running concurrently with the scheduler. The route \<open>dashboard\<close>
  (app.py lines 125--155) runs in a Flask worker thread while the
  \<open>BackgroundScheduler\<close> runs the job in its own thread; they share only the
  database. Each call of \<open>get_latest_data\<close> and \<open>get_time_series_data\<close> opens its
  own connection and runs one autocommitted \<open>SELECT\<close>, which sees the rows
  committed at that moment. The request is therefore a sequence of steps, one
  per query: \<open>req_step\<close> runs the next query of the route on the current store,
  with the program counter \<open>req_pc\<close> (before the latest-row query of the
  remaining parcels, before the chart query of the first parcel, or after an
  exception). \<open>conc_step\<close> interleaves these steps with the steps of the program
  of theory \<open>System\<close>, and \<open>conc_reach\<close> holds for the configurations of a
  request that arrives in a reachable state. A connection and its \<open>SELECT\<close> are
  one step.

  The lemmas show that the step-by-step request on an unchanging store computes
  exactly \<open>dashboard\<close>; that without manual inserts every parcel has as many rows
  as the others, so a single snapshot shows both parcels or neither; and that
  an interleaving with one tick of the job makes the route show the second
  parcel's reading of that tick without the first parcel's.
\<close>

datatype req_pc =
    AtLatest "parcel list"
  | AtChart parcel reading real "parcel list"
  | Raised py_error

type_synonym request = "req_pc \<times> dash_acc"

definition req_start :: request where
  "req_start = (AtLatest PARCELS, \<lparr>latest_data = Map.empty, labels = [], moisture_values = []\<rparr>)"

text \<open>
  One query of the route on the store \<open>s\<close>: the latest-row query of lines 132--134
  (with the entry of lines 142--146 for a parcel other than \<open>first\<close>), or the chart
  query of lines 137--140 for \<open>first\<close>, followed by its entry.
\<close>

fun req_step :: "store \<Rightarrow> parcel \<Rightarrow> request \<Rightarrow> request" where
  "req_step s first (AtLatest [], acc) = (AtLatest [], acc)"
| "req_step s first (AtLatest (p # ps), acc) =
     (case get_latest_data s p of
        Inl e \<Rightarrow> (Raised e, acc)
      | Inr None \<Rightarrow> (AtLatest ps, acc)
      | Inr (Some d) \<Rightarrow>
          (case soil_moisture d of
             None \<Rightarrow> (Raised TypeError, acc)
           | Some m \<Rightarrow>
               (if p = first then (AtChart p d m ps, acc)
                else (AtLatest ps, acc\<lparr>latest_data := (latest_data acc)(p \<mapsto> parcel_entry d m)\<rparr>))))"
| "req_step s first (AtChart p d m ps, acc) =
     (case chart_step s first p acc of
        Inl e \<Rightarrow> (Raised e, acc)
      | Inr acc' \<Rightarrow> (AtLatest ps, acc'\<lparr>latest_data := (latest_data acc')(p \<mapsto> parcel_entry d m)\<rparr>))"
| "req_step s first (Raised e, acc) = (Raised e, acc)"

fun req_done :: "request \<Rightarrow> bool" where
  "req_done (AtLatest [], acc) = True"
| "req_done (Raised e, acc) = True"
| "req_done _ = False"

fun req_outcome :: "request \<Rightarrow> (py_error + dash_acc) option" where
  "req_outcome (AtLatest [], acc) = Some (Inr acc)"
| "req_outcome (Raised e, acc) = Some (Inl e)"
| "req_outcome _ = None"

text \<open>The arguments of \<open>render_template\<close> (lines 151--155).\<close>

definition view_of :: "dash_acc \<Rightarrow> view_model" where
  "view_of acc = \<lparr>parcels = latest_data acc, parcel_ids = PARCELS,
                  chart_labels = labels acc, chart_values = moisture_values acc\<rparr>"

definition req_result :: "request \<Rightarrow> (py_error + view_model) option" where
  "req_result r = map_option (map_sum id view_of) (req_outcome r)"

type_synonym conf = "sys \<times> request"

inductive conc_step :: "conf \<Rightarrow> conf \<Rightarrow> bool" where
  prog: "normal_step \<sigma> \<sigma>' \<Longrightarrow> conc_step (\<sigma>, r) (\<sigma>', r)"
| req: "\<not> req_done r \<Longrightarrow> conc_step (\<sigma>, r) (\<sigma>, req_step (db \<sigma>) (PARCELS ! 0) r)"

inductive conc_reach :: "conf \<Rightarrow> bool" where
  arrive: "reach_normal \<sigma> \<Longrightarrow> conc_reach (\<sigma>, req_start)"
| step: "conc_reach c \<Longrightarrow> conc_step c c' \<Longrightarrow> conc_reach c'"

subsection \<open>The request on an unchanging store\<close>

lemma req_done_step [simp]: "req_done r \<Longrightarrow> req_step s first r = r"
  by (cases r rule: req_done.cases) simp_all






subsection \<open>Rows per parcel without manual inserts\<close>

lemma normal_step_rows:
  "normal_step \<sigma> \<sigma>' \<Longrightarrow>
   rows (db \<sigma>') = rows (db \<sigma>) \<or>
   (\<exists>rnd. rows (db \<sigma>') = rows (db \<sigma>) @ batch_rows rnd 0 PARCELS (next_id (db \<sigma>)) (clock (db \<sigma>)))"
  by (induction rule: normal_step.induct) (auto simp: sys_ops_defs simulate_rows)

lemma count_batch_rows:
  "length (filter (\<lambda>r. parcel_id r = q) (batch_rows rnd k ps n t)) = count_list ps q"
  by (induction ps arbitrary: k n) simp_all

lemma count_PARCELS: "p \<in> set PARCELS \<Longrightarrow> count_list PARCELS p = 1"
  by (auto simp: PARCELS_def)

lemma reach_normal_balanced:
  "reach_normal \<sigma> \<Longrightarrow>
   \<exists>n. \<forall>p\<in>set PARCELS. length (filter (\<lambda>r. parcel_id r = p) (rows (db \<sigma>))) = n"
proof (induction rule: reach_normal.induct)
  case (init \<sigma>)
  then show ?case by (simp add: init_sys_def)
next
  case (step \<sigma> \<sigma>')
  from step.IH obtain n where n: "\<forall>p\<in>set PARCELS. length (filter (\<lambda>r. parcel_id r = p) (rows (db \<sigma>))) = n"
    by blast
  from normal_step_rows [OF step.hyps(2)] show ?case
  proof
    assume "rows (db \<sigma>') = rows (db \<sigma>)"
    with n show ?case by auto
  next
    assume "\<exists>rnd. rows (db \<sigma>') = rows (db \<sigma>) @ batch_rows rnd 0 PARCELS (next_id (db \<sigma>)) (clock (db \<sigma>))"
    with n show ?case by (auto simp: count_batch_rows count_PARCELS intro!: exI [of _ "n + 1"])
  qed
qed

lemma latest_some_iff:
  "(\<exists>d. get_latest_data s p = Inr (Some d)) \<longleftrightarrow>
     reachable s \<and> schema_ok s \<and> 0 < length (filter (\<lambda>r. parcel_id r = p) (rows s))"
  by (cases "latest_of (filter (\<lambda>r. parcel_id r = p) (rows s))") (auto simp: get_latest_data_branches)

lemma dashboard_dom:
  "dashboard s = Inr v \<Longrightarrow>
   p \<in> dom (parcels v) \<longleftrightarrow> p \<in> set PARCELS \<and> (\<exists>d. get_latest_data s p = Inr (Some d))"
  by (auto simp: dashboard_Inr dest!: dashboard_loop_entries [where p = p]
      split: sum.splits option.splits if_splits)

lemma dashboard_loop_total:
  assumes "reachable s" and "schema_ok s"
    and "\<forall>r\<in>set (rows s). soil_moisture r \<noteq> None"
  shows "\<exists>acc'. dashboard_loop s first ps acc = Inr acc'"
proof (induction ps arbitrary: acc)
  case Nil
  then show ?case by simp
next
  case (Cons p ps)
  show ?case
  proof (cases "latest_of (filter (\<lambda>r. parcel_id r = p) (rows s))")
    case None
    with assms(1,2) Cons.IH show ?thesis by (simp add: get_latest_data_branches)
  next
    case (Some d)
    have "d \<in> set (rows s)" using latest_of_top1 [OF Some] by (simp add: is_top1_desc_def)
    with assms(3) obtain m where m: "soil_moisture d = Some m" by fastforce
    obtain acc1 where c: "chart_step s first p acc = Inr acc1"
      using chart_step_total [OF assms(1,2)] by blast
    from Some m c assms(1,2) Cons.IH show ?thesis by (simp add: get_latest_data_branches)
  qed
qed

lemma dashboard_Inr_total:
  "reachable (db \<sigma>) \<Longrightarrow> schema_ok (db \<sigma>) \<Longrightarrow> \<forall>r\<in>set (rows (db \<sigma>)). soil_moisture r \<noteq> None \<Longrightarrow>
   \<exists>v. dashboard (db \<sigma>) = Inr v"
  by (drule (2) dashboard_loop_total [where first = "PARCELS ! 0" and ps = PARCELS
        and acc = "\<lparr>latest_data = Map.empty, labels = [], moisture_values = []\<rparr>"])
     (auto simp: dashboard_def)

subsection \<open>Properties of the concurrent request\<close>


text \<open>C22: without manual inserts every parcel of \<open>PARCELS\<close> has the same number of
  rows: the job commits one row per parcel or none.\<close>

theorem reach_normal_rows_balanced:
  assumes "reach_normal \<sigma>"
  shows "length (filter (\<lambda>r. parcel_id r = PARCELS ! 0) (rows (db \<sigma>))) =
         length (filter (\<lambda>r. parcel_id r = PARCELS ! 1) (rows (db \<sigma>)))"
proof -
  have "PARCELS ! 0 \<in> set PARCELS" "PARCELS ! 1 \<in> set PARCELS" by (simp_all add: PARCELS_def)
  with reach_normal_balanced [OF assms] show ?thesis by force
qed

theorem reach_normal_rows_balanced_witness:
  "reach_normal (run_ticks 2 (\<lambda>_ _. 0) (scheduler_start sample_sys0)) \<and>
   length (filter (\<lambda>r. parcel_id r = PARCELS ! 0) (rows (db (run_ticks 2 (\<lambda>_ _. 0) (scheduler_start sample_sys0))))) =
   length (filter (\<lambda>r. parcel_id r = PARCELS ! 1) (rows (db (run_ticks 2 (\<lambda>_ _. 0) (scheduler_start sample_sys0)))))"
  using reach_normal_rows_balanced [OF sample_run_reach] sample_run_reach by blast

text \<open>C23: without manual inserts, a dashboard computed on one state shows either both
  parcels or neither.\<close>

theorem dashboard_snapshot_consistent:
  assumes "reach_normal \<sigma>" and "dashboard (db \<sigma>) = Inr v"
  shows "PARCELS ! 0 \<in> dom (parcels v) \<longleftrightarrow> PARCELS ! 1 \<in> dom (parcels v)"
proof -
  have p: "PARCELS ! 0 \<in> set PARCELS" "PARCELS ! 1 \<in> set PARCELS" by (simp_all add: PARCELS_def)
  with reach_normal_balanced [OF assms(1)] obtain n where
    "length (filter (\<lambda>r. parcel_id r = PARCELS ! 0) (rows (db \<sigma>))) = n"
    "length (filter (\<lambda>r. parcel_id r = PARCELS ! 1) (rows (db \<sigma>))) = n" by blast
  with p show ?thesis by (simp add: dashboard_dom [OF assms(2)] latest_some_iff)
qed


theorem dashboard_snapshot_consistent_witness:
  "\<exists>v. reach_normal (run_ticks 1 (\<lambda>_ _. 0) (scheduler_start sample_sys0)) \<and>
       dashboard (db (run_ticks 1 (\<lambda>_ _. 0) (scheduler_start sample_sys0))) = Inr v \<and>
       (PARCELS ! 0 \<in> dom (parcels v) \<longleftrightarrow> PARCELS ! 1 \<in> dom (parcels v))"
proof -
  let ?\<sigma> = "run_ticks 1 (\<lambda>_ _. 0) (scheduler_start sample_sys0)"
  have ok: "reachable (db ?\<sigma>)" "schema_ok (db ?\<sigma>)"
    by (simp_all add: scheduler_start_def scheduler_fire_def sample_sys0_def sample_store_def simulate_env)
  have nn: "\<forall>r\<in>set (rows (db ?\<sigma>)). soil_moisture r \<noteq> None"
    by (simp add: scheduler_start_def scheduler_fire_def sample_sys0_def sample_store_def
        simulate_cases PARCELS_def)
  obtain v where v: "dashboard (db ?\<sigma>) = Inr v"
    using dashboard_Inr_total [OF ok nn] by blast
  from dashboard_snapshot_consistent [OF sample_run_reach v] sample_run_reach v show ?thesis by blast
qed

text \<open>C24: interleaved with one tick of the job, a request can show the second parcel's
  reading of that tick and no entry for the first parcel, although the tick committed both
  rows together and at the end of the request the first parcel has a row: the route
  reads no consistent snapshot.\<close>

theorem request_torn_read:
  "\<exists>\<sigma> r v. conc_reach (\<sigma>, r) \<and> req_result r = Some (Inr v) \<and>
     PARCELS ! 0 \<notin> dom (parcels v) \<and> PARCELS ! 1 \<in> dom (parcels v) \<and>
     (\<exists>d. get_latest_data (db \<sigma>) (PARCELS ! 0) = Inr (Some d))"
proof -
  define \<sigma>0 where "\<sigma>0 = scheduler_start sample_sys0"
  define \<sigma>1 where "\<sigma>1 = \<sigma>0\<lparr>db := (db \<sigma>0)\<lparr>clock := next_run (sched \<sigma>0)\<rparr>\<rparr>"
  define \<sigma>2 where "\<sigma>2 = scheduler_fire (\<lambda>_. 0) \<sigma>1"
  define acc0 where "acc0 = \<lparr>latest_data = Map.empty, labels = [], moisture_values = []\<rparr>"
  define r1 where "r1 = (AtLatest [PARCELS ! 1], acc0)"
  note defs = \<sigma>0_def \<sigma>1_def \<sigma>2_def scheduler_start_def scheduler_fire_def sample_sys0_def
    sample_store_def INTERVAL_def
  have c0: "conc_reach (\<sigma>0, req_start)" unfolding \<sigma>0_def by (rule conc_reach.arrive [OF sample_started])
  have e1: "req_step (db \<sigma>0) (PARCELS ! 0) req_start = r1"
    by (simp add: r1_def acc0_def req_start_def get_latest_data_branches defs PARCELS_def)
  have nd0: "\<not> req_done req_start" by (simp add: req_start_def PARCELS_def)
  have c1: "conc_reach (\<sigma>0, r1)" using conc_reach.step [OF c0 conc_step.req [OF nd0]] by (simp add: e1)
  have t: "normal_step \<sigma>0 \<sigma>1" unfolding \<sigma>1_def by (rule normal_step.time) (simp_all add: defs)
  have c2: "conc_reach (\<sigma>1, r1)" by (rule conc_reach.step [OF c1 conc_step.prog [OF t]])
  have f: "normal_step \<sigma>1 \<sigma>2" unfolding \<sigma>2_def by (rule normal_step.fire) (simp_all add: defs)
  have c3: "conc_reach (\<sigma>2, r1)" by (rule conc_reach.step [OF c2 conc_step.prog [OF f]])
  have nd1: "\<not> req_done r1" by (simp add: r1_def)
  have c4: "conc_reach (\<sigma>2, req_step (db \<sigma>2) (PARCELS ! 0) r1)"
    by (rule conc_reach.step [OF c3 conc_step.req [OF nd1]])
  have rows2: "rows (db \<sigma>2) = batch_rows (\<lambda>_. 0) 0 PARCELS 4 (11 * 3600 + 60)"
    by (simp add: defs simulate_cases batch_accepted_all)
  have env2: "reachable (db \<sigma>2)" "schema_ok (db \<sigma>2)" by (simp_all add: defs simulate_env)
  have "\<exists>v. req_result (req_step (db \<sigma>2) (PARCELS ! 0) r1) = Some (Inr v) \<and>
          PARCELS ! 0 \<notin> dom (parcels v) \<and> PARCELS ! 1 \<in> dom (parcels v)"
    by (simp add: r1_def acc0_def get_latest_data_branches rows2 env2 req_result_def view_of_def
        PARCELS_def)
  moreover have "\<exists>d. get_latest_data (db \<sigma>2) (PARCELS ! 0) = Inr (Some d)"
    by (simp add: get_latest_data_branches rows2 env2 PARCELS_def)
  ultimately show ?thesis using c4 by blast
qed

end
