(* ===== verification/DbSetup.thy ===== *)
theory DbSetup
  imports Store
begin

text \<open>
  The schema bootstrap, \<open>create_database\<close> of \<open>db_setup.py\<close> (lines 7--37): it
  connects to the SQLite file \<open>agrisense.db\<close>, runs
  \<open>CREATE TABLE IF NOT EXISTS sensor_data (...)\<close>, commits and closes; a
  \<open>sqlite3.Error\<close> is caught and printed. The database is modelled by the
  \<open>sensor_data\<close> table (\<open>None\<close> when it does not exist) and whether the file
  can be opened and written. Note that this is a SQLite file, while \<open>app.py\<close>
  reads and writes the SQL Server database of \<open>CONNECTION_STRING\<close> (the
  \<open>store\<close> of theory \<open>Store\<close>): running the bootstrap does not create the table
  the application uses. The lemmas show the bootstrap never raises, creates an
  empty table when there is none, and keeps an existing table and its rows.
\<close>

record sqlite_db =
  sensor_table :: "reading list option"
  writable :: bool

text \<open>\<open>DATABASE = 'agrisense.db'\<close>.\<close>

definition DATABASE :: string where
  "DATABASE = ''agrisense.db''"

text \<open>
  \<open>sqlite3.connect\<close> and the \<open>CREATE TABLE\<close> statement either succeed or raise
  \<open>sqlite3.Error\<close>, which the \<open>except\<close> clause turns into a printed message.
\<close>

definition create_table_if_not_exists :: "sqlite_db \<Rightarrow> sqlite_db" where
  "create_table_if_not_exists d =
     (case sensor_table d of None \<Rightarrow> d\<lparr>sensor_table := Some []\<rparr> | Some _ \<Rightarrow> d)"

definition create_database :: "sqlite_db \<Rightarrow> sqlite_db" where
  "create_database d = (if writable d then create_table_if_not_exists d else d)"

text \<open>
  \<open>if __name__ == '__main__'\<close> (lines 39--46): the existence check only
  passes, then the bootstrap runs.
\<close>

definition db_setup_main :: "sqlite_db \<Rightarrow> sqlite_db" where
  "db_setup_main d = create_database d"

lemma create_database_writable [simp]: "writable (create_database d) = writable d"
  by (simp add: create_database_def create_table_if_not_exists_def split: option.splits)

lemma create_database_table:
  "sensor_table (create_database d) =
     (if writable d \<and> sensor_table d = None then Some [] else sensor_table d)"
  by (simp add: create_database_def create_table_if_not_exists_def split: option.splits)

text \<open>C27: the bootstrap never drops or changes rows of an existing table.\<close>

theorem db_setup_keeps_rows:
  "sensor_table d = Some rs \<Longrightarrow> sensor_table (db_setup_main d) = Some rs"
  by (simp add: db_setup_main_def create_database_table)

theorem db_setup_keeps_rows_witness:
  "sensor_table (db_setup_main \<lparr>sensor_table = Some sample_rows, writable = True\<rparr>) = Some sample_rows"
  using db_setup_keeps_rows [of "\<lparr>sensor_table = Some sample_rows, writable = True\<rparr>" sample_rows]
  by simp

end
