(* ===== verification/Spec2Isabelle.thy ===== *)
theory Spec2Isabelle
  imports Interleave DbSetup
begin

text \<open>
  \<^bold>\<open>AgriSense: a verification model of \<open>src/AgriSense/app.py\<close> and
  \<open>src/AgriSense/db_setup.py\<close>.\<close>

  \<^bold>\<open>The program.\<close> A Flask application simulates soil-moisture and air-temperature
  readings for the parcels of \<open>PARCELS\<close>, stores them in the SQL Server table
  \<open>sensor_data\<close>, and serves a dashboard with the latest reading of each parcel,
  an irrigation alert, and an hourly chart of the first parcel. A
  \<open>BackgroundScheduler\<close> runs the ingestion job every minute; request handling and
  the job share nothing but the database. \<open>db_setup.py\<close> creates the table in a
  SQLite file.

  \<^bold>\<open>Theories, in import order.\<close>
  \<^item> \<open>AgriPrelude\<close>: the types \<open>timestamp\<close> and \<open>parcel\<close>, the exceptions
    \<open>py_error\<close> that can escape a Python function, \<open>sum_bind\<close> for exception
    propagation, \<open>nonnull\<close> (what SQL aggregates see of a column), the named
    collection \<open>model_defs\<close> of the adapter's definitions, and shared list and
    character lemmas (\<open>char_eval\<close> evaluates labels built with \<open>char_of\<close>).
  \<^item> \<open>Store\<close>: the store adapter. \<open>reading\<close> is a row of \<open>sensor_data\<close>;
    \<open>store\<close> is the database as \<open>app.py\<close> sees it (committed rows, the
    \<open>IDENTITY\<close> counter, the clock of \<open>GETDATE()\<close>, reachability, whether the
    table exists, which inserts the server accepts); \<open>conn\<close> holds a
    connection's uncommitted inserts (pyodbc's autocommit is off).
    \<open>get_db_connection\<close> (lines 23--32), \<open>execute_insert\<close> (49--52),
    \<open>conn_commit\<close> (54--55), \<open>execute_select\<close>; the configuration \<open>PARCELS\<close>
    (line 10); the timestamp invariant \<open>ts_ok\<close>.
  \<^item> \<open>Alert\<close>: \<open>check_for_alerts\<close> (114--121) and the specification's
    three-tier rule \<open>classify\<close>, with the refinement between them.
  \<^item> \<open>Query\<close>: \<open>get_latest_data\<close> (59--79) with \<open>latest_of\<close> for
    \<open>TOP 1 ... ORDER BY [timestamp] DESC\<close> and its contract \<open>is_top1_desc\<close>;
    \<open>get_time_series_data\<close> (82--109) with \<open>format_hour\<close> for
    \<open>FORMAT([timestamp], 'HH:00')\<close>, \<open>sql_avg\<close> for \<open>AVG\<close>, and
    \<open>hourly_rows\<close> for the grouped, ordered statement.
  \<^item> \<open>Ingestion\<close>: \<open>simulate_and_insert_data\<close> (34--56) with
    \<open>py_uniform\<close> (\<open>random.uniform\<close>), \<open>round_half_even\<close> and \<open>py_round2\<close>
    (\<open>round(x, 2)\<close>), and the loop \<open>insert_parcels\<close>; it returns the new store
    and either a normal return or the escaping exception.
  \<^item> \<open>Dashboard\<close>: the route body (125--155) as \<open>dashboard_loop\<close>,
    \<open>chart_step\<close> and \<open>dashboard\<close>, producing the \<open>view_model\<close> handed to
    \<open>render_template\<close>, or the exception that escapes.
  \<^item> \<open>System\<close>: the running program (157--169): the scheduler's \<open>lifecycle\<close>,
    \<open>scheduler_start\<close>, \<open>scheduler_fire\<close> (a due run; its exception is logged),
    \<open>scheduler_shutdown\<close> (atexit), the step relations \<open>normal_step\<close> and
    \<open>sys_step\<close> (the latter adds manual inserts), the reachable states
    \<open>reach\<close> and \<open>reach_normal\<close>, and \<open>run_ticks\<close>, the schedule run for
    \<open>n\<close> minutes.
  \<^item> \<open>Interleave\<close>: the route and the job running concurrently. The request is
    one step per query (\<open>req_step\<close> with the program counter \<open>req_pc\<close>), each
    query seeing the rows committed when it runs; \<open>conc_step\<close> interleaves
    these steps with \<open>normal_step\<close>, and \<open>conc_reach\<close> holds for a request
    arriving in a reachable state.
  \<^item> \<open>DbSetup\<close>: \<open>create_database\<close> and the script's main (\<open>db_setup.py\<close>).
  \<^item> This theory: the properties that span components.

  \<^bold>\<open>What the lemmas show.\<close> The alert rule implements the specification's tiers
  with closed lower bounds. \<open>get_latest_data\<close> returns a committed row of the
  parcel with maximal timestamp, and nothing exactly when the store is
  unreachable or the parcel has no row. The hourly series has one bucket per
  hour of the day present in the window, in numeric order, with averages
  within the range of the averaged values; labels compare as the hours they
  name and forget the date, so on a window crossing midnight the buckets are
  not in time order. A tick appends exactly one row per parcel or nothing
  (all-or-nothing), with values in the generator's ranges, and on success
  always ends in \<open>NameError\<close>. The dashboard shows exactly the parcels with a
  row, each with the alert of its latest moisture, the first parcel's series,
  an empty view on an outage, and raises on a missing table or a \<open>NULL\<close>
  moisture. Without manual inserts the latest row is the last inserted, and
  every parcel has as many rows as the other, so a dashboard computed on one
  state shows both parcels or neither; a manual backdated insert hides the last
  row. After \<open>scheduler.shutdown()\<close> no insert happens, and \<open>n\<close> minutes of
  schedule add \<open>n\<close> batches. The request run query by query on an unchanging
  store is \<open>dashboard\<close>; interleaved with a tick it can show the second
  parcel's new reading without the first parcel: the route reads no snapshot.

  \<^bold>\<open>Choices and bounds.\<close> Python floats and SQL \<open>REAL\<close> are \<open>real\<close>
  (no rounding error); \<open>round(x, 2)\<close> is half-to-even on reals. Timestamps are
  whole seconds of local server time; \<open>GETDATE()\<close> does not move during one
  tick or one query. Ids are unbounded integers (an \<open>int\<close> identity would
  overflow after \<open>2^31\<close> inserts, some four thousand years at two per minute).
  The random generator is a parameter (a stream of \<open>random()\<close> values), so
  every property holds for every draw. \<open>run_ticks\<close> is structural recursion on
  the number of runs; no fuel is needed, since every loop of the program is
  over a finite list, and a request ends after at most two steps per parcel.
  SQL leaves the row \<open>TOP 1\<close> picks among equal timestamps open; \<open>latest_of\<close>
  takes the row inserted last, and the properties of a single query are stated
  through the contract \<open>is_top1_desc\<close>, which every choice satisfies;
  \<open>latest_is_last_insert\<close> uses the model's choice only for rows of one parcel
  with equal timestamps, which ticks firing at increasing clock values do not
  produce. Each \<open>SELECT\<close> is one atomic statement under
  \<open>READ COMMITTED\<close>: it sees committed rows only; a connection and its
  statement are one step. The server clock only moves forward: daylight-saving
  changes and clock adjustments are not modelled.

  \<^bold>\<open>Not modelled.\<close> Flask routing and the template \<open>index.html\<close>
  (view glue; the model stops at the arguments of \<open>render_template\<close>); the
  \<open>print\<close> calls (output only, except the one that raises); the scheduler's
  misfire grace time and thread timing (a run fires when its time is due);
  connection loss in the middle of a statement, and timeouts; character-level
  details of string collation and of \<open>FORMAT\<close> under other cultures (labels are
  compared by character codes); Python's \<open>str\<close> as code points (strings are
  UTF-8 bytes).
\<close>

subsection \<open>Properties across components\<close>

text \<open>C29: one tick on a fresh, reachable store whose inserts are all accepted, followed by a
  dashboard request: both parcels are shown with the generated moisture and its alert, and
  the chart is the single bucket of the tick's hour holding the first parcel's moisture.\<close>

theorem tick_then_dashboard:
  assumes "reachable s" and "schema_ok s" and "\<forall>p m t. accepts s p m t" and "rows s = []"
  shows "dashboard (fst (simulate_and_insert_data rnd s)) =
           Inr \<lparr>parcels = Map.empty
                  (PARCELS ! 0 \<mapsto> parcel_entry (batch_rows rnd 0 PARCELS (next_id s) (clock s) ! 0)
                                  (gen_moisture rnd 0),
                   PARCELS ! 1 \<mapsto> parcel_entry (batch_rows rnd 0 PARCELS (next_id s) (clock s) ! 1)
                                  (gen_moisture rnd 2)),
                parcel_ids = PARCELS, chart_labels = [format_hour (clock s)],
                chart_values = [Some (gen_moisture rnd 0)]\<rparr>"
proof -
  let ?s' = "fst (simulate_and_insert_data rnd s)"
  have acc: "batch_accepted rnd 0 PARCELS s" using assms(3) by (rule batch_accepted_all)
  have r: "rows ?s' = batch_rows rnd 0 PARCELS (next_id s) (clock s)"
    using assms(1,2,4) acc by (simp add: simulate_rows)
  have e: "reachable ?s'" "schema_ok ?s'" "clock ?s' = clock s"
    using assms(1,2) by (simp_all add: simulate_env)
  show ?thesis
    by (simp add: dashboard_def chart_step_def model_defs r e PARCELS_def hourly_rows_def in_window_def
        sql_avg_def numeral_2_eq_2)
qed

theorem tick_then_dashboard_witness:
  "dashboard (fst (simulate_and_insert_data (\<lambda>_. 0) (sample_store\<lparr>rows := []\<rparr>))) =
     Inr \<lparr>parcels = Map.empty
            (PARCELS ! 0 \<mapsto> parcel_entry (batch_rows (\<lambda>_. 0) 0 PARCELS 4 (11 * 3600) ! 0)
                            (gen_moisture (\<lambda>_. 0) 0),
             PARCELS ! 1 \<mapsto> parcel_entry (batch_rows (\<lambda>_. 0) 0 PARCELS 4 (11 * 3600) ! 1)
                            (gen_moisture (\<lambda>_. 0) 2)),
          parcel_ids = PARCELS, chart_labels = [format_hour (11 * 3600)],
          chart_values = [Some (gen_moisture (\<lambda>_. 0) 0)]\<rparr>"
proof -
  have h: "reachable (sample_store\<lparr>rows := []\<rparr>)" "schema_ok (sample_store\<lparr>rows := []\<rparr>)"
    "\<forall>p m t. accepts (sample_store\<lparr>rows := []\<rparr>) p m t" "rows (sample_store\<lparr>rows := []\<rparr>) = []"
    by (simp_all add: sample_store_def)
  from tick_then_dashboard [OF h, of "\<lambda>_. 0"] show ?thesis by (simp add: sample_store_def)
qed

end
